theory Spec2Isabelle
  imports Complex_Main "HOL-Library.Sublist"
begin

section \<open>Values and errors\<close>

text \<open>
  The manifest \<^verbatim>\<open>meta.json\<close> is read with \<^verbatim>\<open>json.load\<close>, so every value the code
  handles is a JSON value: null, a boolean, a number, a string, a list or a dictionary.
  Numbers are never inspected by the code (they are only copied into the card), so their
  type is a parameter. A dictionary is an association list: Python dictionaries keep
  insertion order and \<^verbatim>\<open>yaml.dump(..., sort_keys=False)\<close> writes them in that order.
  A key is looked up with \<open>map_of\<close>.

  Strings are byte lists. The only characters the code looks at are the space and the
  hyphen and the letters of the fixed component names and keys, all ASCII.
\<close>

datatype 'n json =
    JNull
  | JBool bool
  | JNum 'n
  | JStr string
  | JList "'n json list"
  | JDict "(string \<times> 'n json) list"

datatype error = KeyError string | TypeError | AttributeError

text \<open>Sequencing of a computation that may raise: the first error is the result.\<close>

definition and_then :: "error + 'a \<Rightarrow> ('a \<Rightarrow> error + 'b) \<Rightarrow> error + 'b" where
  "and_then r f = (case r of Inl e \<Rightarrow> Inl e | Inr v \<Rightarrow> f v)"

subsection \<open>The Python operations the code applies to manifest values\<close>

text \<open>\<^verbatim>\<open>d[k] = v\<close> on a dictionary: an existing key keeps its place, a new key goes last.\<close>

fun dict_set :: "(string \<times> 'v) list \<Rightarrow> string \<Rightarrow> 'v \<Rightarrow> (string \<times> 'v) list" where
  "dict_set [] k v = [(k, v)]"
| "dict_set ((k', v') # m) k v =
     (if k' = k then (k', v) # m else (k', v') # dict_set m k v)"

text \<open>\<^verbatim>\<open>data[k]\<close> with a string key: KeyError on a dictionary without the key, TypeError on
  every value that is not a dictionary.\<close>

fun py_getitem :: "'n json \<Rightarrow> string \<Rightarrow> error + 'n json" where
  "py_getitem (JDict d) k = (case map_of d k of None \<Rightarrow> Inl (KeyError k) | Some v \<Rightarrow> Inr v)"
| "py_getitem _ k = Inl TypeError"

text \<open>\<^verbatim>\<open>k in data\<close> with a string \<open>k\<close>: key membership on a dictionary, element membership
  on a list, substring test on a string, TypeError otherwise.\<close>

fun py_contains :: "'n json \<Rightarrow> string \<Rightarrow> error + bool" where
  "py_contains (JDict d) k = Inr (map_of d k \<noteq> None)"
| "py_contains (JList xs) k = Inr (JStr k \<in> set xs)"
| "py_contains (JStr s) k = Inr (sublist k s)"
| "py_contains _ k = Inl TypeError"

text \<open>\<^verbatim>\<open>data.get(k, default)\<close>: only a dictionary has the method.\<close>

fun py_get :: "'n json \<Rightarrow> string \<Rightarrow> 'n json \<Rightarrow> error + 'n json" where
  "py_get (JDict d) k dflt = Inr (case map_of d k of None \<Rightarrow> dflt | Some v \<Rightarrow> v)"
| "py_get _ k dflt = Inl AttributeError"

text \<open>\<^verbatim>\<open>v.replace(" ", "-")\<close>: only a string has the method.\<close>

definition replace_spaces :: "string \<Rightarrow> string" where
  "replace_spaces s = map (\<lambda>c. if c = CHR '' '' then CHR ''-'' else c) s"

fun py_replace_spaces :: "'n json \<Rightarrow> error + 'n json" where
  "py_replace_spaces (JStr s) = Inr (JStr (replace_spaces s))"
| "py_replace_spaces _ = Inl AttributeError"

text \<open>\<^verbatim>\<open>for component in v\<close>: the elements of a list, the characters of a string, the keys
  of a dictionary; TypeError on a value that is not iterable.\<close>

fun py_iter :: "'n json \<Rightarrow> error + 'n json list" where
  "py_iter (JList xs) = Inr xs"
| "py_iter (JStr s) = Inr (map (\<lambda>c. JStr [c]) s)"
| "py_iter (JDict d) = Inr (map (\<lambda>kv. JStr (fst kv)) d)"
| "py_iter _ = Inl TypeError"

text \<open>\<^verbatim>\<open>len(v)\<close>.\<close>

fun py_len :: "'n json \<Rightarrow> error + nat" where
  "py_len (JList xs) = Inr (length xs)"
| "py_len (JStr s) = Inr (length s)"
| "py_len (JDict d) = Inr (length d)"
| "py_len _ = Inl TypeError"

section \<open>The card helpers\<close>

definition token_classification_components :: "string list" where
  "token_classification_components = [''ner'', ''tagger'', ''morphologizer'']"

definition text_classification_components :: "string list" where
  "text_classification_components = [''textcat'', ''textcat_multilabel'']"

definition insert_value ::
  "(string \<times> 'n json) list \<Rightarrow> string \<Rightarrow> 'n json \<Rightarrow> (string \<times> 'n json) list" where
  "insert_value metadata name v =
     (if v = JNull \<or> v = JStr [] then metadata else dict_set metadata name v)"

definition insert_values_as_list ::
  "(string \<times> 'n json) list \<Rightarrow> string \<Rightarrow> 'n json \<Rightarrow> error + (string \<times> 'n json) list" where
  "insert_values_as_list metadata name vs =
     (if vs = JNull then Inr metadata
      else
        let vs' = (case vs of JStr s \<Rightarrow> JList [vs] | _ \<Rightarrow> vs)
        in and_then (py_len vs') (\<lambda>n.
             if n = 0 then Inr metadata else Inr (dict_set metadata name vs')))"

definition create_metric :: "string \<Rightarrow> string \<Rightarrow> 'n json \<Rightarrow> 'n json" where
  "create_metric name t v = JDict [(''name'', JStr name), (''type'', JStr t), (''value'', v)]"

definition create_p_r_f_list :: "'n json \<Rightarrow> 'n json \<Rightarrow> 'n json \<Rightarrow> 'n json" where
  "create_p_r_f_list precision recall f_score =
     JList [create_metric ''Precision'' ''precision'' precision,
            create_metric ''Recall'' ''recall'' recall,
            create_metric ''F Score'' ''f_score'' f_score]"

section \<open>The tags of a component list\<close>

text \<open>One iteration of the loop over \<^verbatim>\<open>data["components"]\<close>: two independent tests,
  the second one on the tags the first one may have extended.\<close>

definition scan_component :: "'n json \<Rightarrow> string list \<Rightarrow> string list" where
  "scan_component component tags =
     (let tags1 =
        (if component \<in> set (map JStr token_classification_components)
            \<and> ''token-classification'' \<notin> set tags
         then tags @ [''token-classification''] else tags)
      in if component \<in> set (map JStr text_classification_components)
            \<and> ''text-classification'' \<notin> set tags1
         then tags1 @ [''text-classification''] else tags1)"

fun scan_components :: "'n json list \<Rightarrow> string list \<Rightarrow> string list" where
  "scan_components [] tags = tags"
| "scan_components (component # rest) tags = scan_components rest (scan_component component tags)"

definition derive_tags :: "'n json list \<Rightarrow> string list" where
  "derive_tags components = scan_components components [''spacy'']"

section \<open>The results index\<close>

text \<open>The dictionary literal \<^verbatim>\<open>{"tasks": {"name": ..., "type": ..., "metrics": ...}}\<close> that
  every branch of \<^verbatim>\<open>_create_model_index\<close> appends.\<close>

definition task_entry :: "string \<Rightarrow> 'n json \<Rightarrow> 'n json" where
  "task_entry name metrics =
     JDict [(''tasks'', JDict [(''name'', JStr name),
                               (''type'', JStr ''token-classification''),
                               (''metrics'', metrics)])]"

text \<open>The entry each branch builds; the lookups \<^verbatim>\<open>data[...]\<close> are made in the order of
  the argument list and the first missing key raises.\<close>

definition ner_entry :: "'n json \<Rightarrow> error + 'n json" where
  "ner_entry data =
     and_then (py_getitem data ''ents_p'') (\<lambda>p.
     and_then (py_getitem data ''ents_r'') (\<lambda>r.
     and_then (py_getitem data ''ents_f'') (\<lambda>f.
       Inr (task_entry ''NER'' (create_p_r_f_list p r f)))))"

definition pos_entry :: "'n json \<Rightarrow> error + 'n json" where
  "pos_entry data =
     and_then (py_getitem data ''tag_acc'') (\<lambda>a.
       Inr (task_entry ''POS'' (JList [create_metric ''Accuracy'' ''accuracy'' a])))"

definition senter_entry :: "'n json \<Rightarrow> error + 'n json" where
  "senter_entry data =
     and_then (py_getitem data ''sents_p'') (\<lambda>p.
     and_then (py_getitem data ''sents_r'') (\<lambda>r.
     and_then (py_getitem data ''sents_f'') (\<lambda>f.
       Inr (task_entry ''SENTER'' (create_p_r_f_list p r f)))))"

definition uas_entry :: "'n json \<Rightarrow> error + 'n json" where
  "uas_entry data =
     and_then (py_getitem data ''dep_uas'') (\<lambda>a.
       Inr (task_entry ''UNLABELED_DEPENDENCIES''
              (JList [create_metric ''Accuracy'' ''accuracy'' a])))"

text \<open>The branch for \<^verbatim>\<open>dep_las\<close> reads \<^verbatim>\<open>data["dep_uas"]\<close>, as the source does.\<close>

definition las_entry :: "'n json \<Rightarrow> error + 'n json" where
  "las_entry data =
     and_then (py_getitem data ''dep_uas'') (\<lambda>a.
       Inr (task_entry ''LABELED_DEPENDENCIES''
              (JList [create_metric ''Accuracy'' ''accuracy'' a])))"

text \<open>\<^verbatim>\<open>if key in data: results.append(entry)\<close>.\<close>

definition append_if_in ::
  "'n json \<Rightarrow> string \<Rightarrow> (error + 'n json) \<Rightarrow> 'n json list \<Rightarrow> error + 'n json list" where
  "append_if_in data key entry results =
     and_then (py_contains data key) (\<lambda>present.
       if present then and_then entry (\<lambda>t. Inr (results @ [t])) else Inr results)"

definition create_model_index :: "string \<Rightarrow> 'n json \<Rightarrow> error + 'n json" where
  "create_model_index repo_name data =
     and_then (append_if_in data ''ents_p'' (ner_entry data) []) (\<lambda>r1.
     and_then (append_if_in data ''tag_acc'' (pos_entry data) r1) (\<lambda>r2.
     and_then (append_if_in data ''sents_p'' (senter_entry data) r2) (\<lambda>r3.
     and_then (append_if_in data ''dep_uas'' (uas_entry data) r3) (\<lambda>r4.
     and_then (append_if_in data ''dep_las'' (las_entry data) r4) (\<lambda>results.
       Inr (JDict [(''name'', JStr repo_name), (''results'', JList results)]))))))"

section \<open>The metadata card and the description document\<close>

text \<open>
  The part of \<^verbatim>\<open>_create_model_card\<close> between \<^verbatim>\<open>json.load\<close> and \<^verbatim>\<open>yaml.dump\<close>:
  from the parsed manifest to the metadata dictionary, in the order of the source lines.
  \<^verbatim>\<open>data["lang"]\<close> is evaluated first, the license second, the components third, and
  \<^verbatim>\<open>data["performance"]\<close> only after tags and language have been inserted.
\<close>

definition create_model_card_metadata :: "string \<Rightarrow> 'n json \<Rightarrow> error + 'n json" where
  "create_model_card_metadata repo_name data =
     and_then (py_getitem data ''lang'') (\<lambda>l.
     let lang = (if l \<noteq> JStr ''xx'' then l else JStr ''multilingual'') in
     and_then (py_get data ''license'' (JStr [])) (\<lambda>lv.
     and_then (py_replace_spaces lv) (\<lambda>lic.
     and_then (py_getitem data ''components'') (\<lambda>cv.
     and_then (py_iter cv) (\<lambda>components.
     let tags = derive_tags components in
     and_then (insert_values_as_list [] ''tags'' (JList (map JStr tags))) (\<lambda>m1.
     and_then (insert_values_as_list m1 ''language'' lang) (\<lambda>m2.
     let m3 = insert_value m2 ''license'' lic in
     and_then (py_getitem data ''performance'') (\<lambda>perf.
     and_then (create_model_index repo_name perf) (\<lambda>model_index.
       Inr (JDict (dict_set m3 ''model-index'' model_index)))))))))))"

text \<open>
  The rest of \<^verbatim>\<open>_create_model_card\<close>: the serialised metadata between two marker lines,
  then the previous text of \<^verbatim>\<open>README.md\<close> (the empty string when the file does not exist).
  \<open>yaml_dump\<close> stands for \<^verbatim>\<open>yaml.dump(metadata, sort_keys=False)\<close>; \<open>readme_file\<close> is
  the text that reading the file gives, \<open>None\<close> when \<^verbatim>\<open>os.path.isfile\<close> is false; the
  result is the text written to the file.
\<close>

definition metadata_section :: "string \<Rightarrow> string" where
  "metadata_section metadata = ''---'' @ [CHR 0x0A] @ metadata @ ''---'' @ [CHR 0x0A]"

definition create_model_card ::
  "('n json \<Rightarrow> string) \<Rightarrow> string \<Rightarrow> 'n json \<Rightarrow> string option \<Rightarrow> error + string" where
  "create_model_card yaml_dump repo_name data readme_file =
     and_then (create_model_card_metadata repo_name data) (\<lambda>metadata.
       let readme = (case readme_file of None \<Rightarrow> [] | Some text \<Rightarrow> text)
       in Inr (metadata_section (yaml_dump metadata) @ readme))"

section \<open>Notions used to state the properties\<close>

text \<open>Membership of a component in the two fixed lists, as the loop tests it.\<close>

definition token_component :: "'n json \<Rightarrow> bool" where
  "token_component c = (c \<in> set (map JStr token_classification_components))"

definition text_component :: "'n json \<Rightarrow> bool" where
  "text_component c = (c \<in> set (map JStr text_classification_components))"

text \<open>The position of the first element of a list that satisfies a predicate (the length
  of the list when there is none).\<close>

definition first_index :: "('a \<Rightarrow> bool) \<Rightarrow> 'a list \<Rightarrow> nat" where
  "first_index P xs = length (takeWhile (\<lambda>x. \<not> P x) xs)"

text \<open>The tags the scan adds after the base tag: the tag of the first component that
  belongs to one of the two lists, then the other tag when some component belongs to the
  other list.\<close>

definition first_match_tags :: "'n json list \<Rightarrow> string list" where
  "first_match_tags cs =
     (case List.find (\<lambda>c. token_component c \<or> text_component c) cs of
        None \<Rightarrow> []
      | Some c \<Rightarrow>
          if token_component c
          then ''token-classification'' #
                 (if list_ex text_component cs then [''text-classification''] else [])
          else ''text-classification'' #
                 (if list_ex token_component cs then [''token-classification''] else []))"


text \<open>Reading the card back: the value of a key of a dictionary, the results list of a
  model index, the task name of a results entry.\<close>

definition card_field :: "'n json \<Rightarrow> string \<Rightarrow> 'n json option" where
  "card_field j k = (case j of JDict d \<Rightarrow> map_of d k | _ \<Rightarrow> None)"

definition results_of :: "'n json \<Rightarrow> 'n json list" where
  "results_of model_index =
     (case card_field model_index ''results'' of Some (JList rs) \<Rightarrow> rs | _ \<Rightarrow> [])"

definition task_name :: "'n json \<Rightarrow> string option" where
  "task_name e =
     (case card_field e ''tasks'' of
        Some t \<Rightarrow> (case card_field t ''name'' of Some (JStr n) \<Rightarrow> Some n | _ \<Rightarrow> None)
      | None \<Rightarrow> None)"

text \<open>The five metric groups in the order of the branches of \<^verbatim>\<open>_create_model_index\<close>,
  each with the key whose presence selects the branch and the name of its task; the names
  of the groups present in a performance mapping, in that order; and the condition that
  every present group finds the keys its branch reads.\<close>

definition metric_groups :: "(string \<times> string) list" where
  "metric_groups =
     [(''ents_p'', ''NER''), (''tag_acc'', ''POS''), (''sents_p'', ''SENTER''),
      (''dep_uas'', ''UNLABELED_DEPENDENCIES''), (''dep_las'', ''LABELED_DEPENDENCIES'')]"

definition present_group_names :: "(string \<times> 'n json) list \<Rightarrow> string list" where
  "present_group_names d = map snd (filter (\<lambda>g. map_of d (fst g) \<noteq> None) metric_groups)"

definition groups_complete :: "(string \<times> 'n json) list \<Rightarrow> bool" where
  "groups_complete d =
     ((map_of d ''ents_p'' \<noteq> None \<longrightarrow> map_of d ''ents_r'' \<noteq> None \<and> map_of d ''ents_f'' \<noteq> None)
      \<and> (map_of d ''sents_p'' \<noteq> None \<longrightarrow> map_of d ''sents_r'' \<noteq> None \<and> map_of d ''sents_f'' \<noteq> None)
      \<and> (map_of d ''dep_las'' \<noteq> None \<longrightarrow> map_of d ''dep_uas'' \<noteq> None))"

text \<open>The shape of a manifest as the data model has it: the language code and the license
  are strings and the components are a list, wherever the key is there at all. The first
  of the required keys that a manifest lacks, in the order in which the code reads them.\<close>

definition is_str :: "'n json \<Rightarrow> bool" where
  "is_str v = (case v of JStr s \<Rightarrow> True | _ \<Rightarrow> False)"

definition is_list :: "'n json \<Rightarrow> bool" where
  "is_list v = (case v of JList xs \<Rightarrow> True | _ \<Rightarrow> False)"

definition manifest_typed :: "(string \<times> 'n json) list \<Rightarrow> bool" where
  "manifest_typed m =
     ((case map_of m ''lang'' of None \<Rightarrow> True | Some v \<Rightarrow> is_str v)
      \<and> (case map_of m ''license'' of None \<Rightarrow> True | Some v \<Rightarrow> is_str v)
      \<and> (case map_of m ''components'' of None \<Rightarrow> True | Some v \<Rightarrow> is_list v))"

definition first_missing_key :: "(string \<times> 'n json) list \<Rightarrow> string option" where
  "first_missing_key m =
     (if map_of m ''lang'' = None then Some ''lang''
      else if map_of m ''components'' = None then Some ''components''
      else if map_of m ''performance'' = None then Some ''performance''
      else None)"

section \<open>Properties of the tag scan\<close>

lemma token_not_text: "token_component c \<Longrightarrow> \<not> text_component c"
  by (auto simp: token_component_def text_component_def
      token_classification_components_def text_classification_components_def)

lemma scan_component_cases:
  "scan_component c tags =
     (if token_component c \<and> ''token-classification'' \<notin> set tags
      then tags @ [''token-classification'']
      else if text_component c \<and> ''text-classification'' \<notin> set tags
      then tags @ [''text-classification''] else tags)"
  using token_not_text [of c]
  by (auto simp: scan_component_def Let_def token_component_def text_component_def)

lemma scan_both_present:
  "''token-classification'' \<in> set tags \<Longrightarrow> ''text-classification'' \<in> set tags \<Longrightarrow>
   scan_components cs tags = tags"
  by (induction cs arbitrary: tags) (simp_all add: scan_component_cases)

lemma scan_token_present:
  "''token-classification'' \<in> set tags \<Longrightarrow> ''text-classification'' \<notin> set tags \<Longrightarrow>
   scan_components cs tags = tags @ (if list_ex text_component cs then [''text-classification''] else [])"
proof (induction cs arbitrary: tags)
  case Nil
  then show ?case by simp
next
  case (Cons c cs)
  show ?case
  proof (cases "text_component c")
    case True
    with Cons.prems show ?thesis
      by (simp add: scan_component_cases scan_both_present)
  next
    case False
    with Cons show ?thesis
      by (simp add: scan_component_cases)
  qed
qed

lemma scan_text_present:
  "''token-classification'' \<notin> set tags \<Longrightarrow> ''text-classification'' \<in> set tags \<Longrightarrow>
   scan_components cs tags = tags @ (if list_ex token_component cs then [''token-classification''] else [])"
proof (induction cs arbitrary: tags)
  case Nil
  then show ?case by simp
next
  case (Cons c cs)
  show ?case
  proof (cases "token_component c")
    case True
    with Cons.prems show ?thesis
      by (simp add: scan_component_cases scan_both_present)
  next
    case False
    with Cons show ?thesis
      by (simp add: scan_component_cases)
  qed
qed

lemma scan_none_present:
  "''token-classification'' \<notin> set tags \<Longrightarrow> ''text-classification'' \<notin> set tags \<Longrightarrow>
   scan_components cs tags = tags @ first_match_tags cs"
proof (induction cs arbitrary: tags)
  case Nil
  then show ?case by (simp add: first_match_tags_def)
next
  case (Cons c cs)
  consider (tokc) "token_component c" | (textc) "text_component c" "\<not> token_component c"
    | (neither) "\<not> token_component c" "\<not> text_component c" by blast
  then show ?case
  proof cases
    case tokc
    with Cons.prems token_not_text [of c] show ?thesis
      by (simp add: scan_component_cases scan_token_present first_match_tags_def)
  next
    case textc
    with Cons.prems show ?thesis
      by (simp add: scan_component_cases scan_text_present first_match_tags_def)
  next
    case neither
    with Cons show ?thesis
      by (simp add: scan_component_cases first_match_tags_def)
  qed
qed

lemma derive_tags_eq: "derive_tags cs = ''spacy'' # first_match_tags cs"
  by (simp add: derive_tags_def scan_none_present)

lemma first_match_tags_Nil: "first_match_tags [] = []"
  by (simp add: first_match_tags_def)

lemma first_match_tags_Cons:
  "first_match_tags (c # cs) =
     (if token_component c
      then ''token-classification'' #
             (if list_ex text_component cs then [''text-classification''] else [])
      else if text_component c
      then ''text-classification'' #
             (if list_ex token_component cs then [''token-classification''] else [])
      else first_match_tags cs)"
  using token_not_text [of c] by (simp add: first_match_tags_def)

lemma first_index_Cons:
  "first_index P (x # xs) = (if P x then 0 else Suc (first_index P xs))"
  by (simp add: first_index_def)

lemma first_match_tags_both:
  "list_ex token_component cs \<Longrightarrow> list_ex text_component cs \<Longrightarrow>
   first_match_tags cs =
     (if first_index token_component cs < first_index text_component cs
      then [''token-classification'', ''text-classification'']
      else [''text-classification'', ''token-classification''])"
proof (induction cs)
  case Nil
  then show ?case by simp
next
  case (Cons c cs)
  consider (tokc) "token_component c" | (textc) "text_component c" "\<not> token_component c"
    | (neither) "\<not> token_component c" "\<not> text_component c" by blast
  then show ?case
  proof cases
    case tokc
    with Cons.prems token_not_text [of c] show ?thesis
      by (simp add: first_match_tags_Cons first_index_Cons)
  next
    case textc
    with Cons.prems show ?thesis
      by (simp add: first_match_tags_Cons first_index_Cons)
  next
    case neither
    with Cons.prems have "list_ex token_component cs" "list_ex text_component cs"
      by simp_all
    then have "first_match_tags cs =
     (if first_index token_component cs < first_index text_component cs
      then [''token-classification'', ''text-classification'']
      else [''text-classification'', ''token-classification''])"
      by (rule Cons.IH)
    with neither show ?thesis
      by (simp add: first_match_tags_Cons first_index_Cons)
  qed
qed

lemma set_first_match_tags:
  "set (first_match_tags cs) =
     (if list_ex token_component cs then {''token-classification''} else {}) \<union>
     (if list_ex text_component cs then {''text-classification''} else {})"
proof (induction cs)
  case Nil
  show ?case by (simp add: first_match_tags_Nil)
next
  case (Cons c cs)
  with token_not_text [of c] show ?case
    by (auto simp: first_match_tags_Cons)
qed

lemma distinct_first_match_tags: "distinct (first_match_tags cs)"
  by (induction cs) (simp_all add: first_match_tags_Nil first_match_tags_Cons)

lemma scan_components_append:
  "scan_components (cs @ cs') tags = scan_components cs' (scan_components cs tags)"
  by (induction cs arbitrary: tags) simp_all

lemma scan_components_extends: "prefix tags (scan_components cs tags)"
proof (induction cs arbitrary: tags)
  case Nil
  show ?case by simp
next
  case (Cons c cs)
  have "prefix tags (scan_component c tags)"
    by (simp add: scan_component_cases)
  also have "prefix (scan_component c tags) (scan_components cs (scan_component c tags))"
    by (rule Cons.IH)
  finally show ?case by simp
qed

text \<open>
  C4. For every component list the derived tags start with the base tag \<^verbatim>\<open>spacy\<close>; the
  list is scanned once, in order, and \<^verbatim>\<open>token-classification\<close> and \<^verbatim>\<open>text-classification\<close>
  are appended where the first component of the respective fixed list is met. So the tags
  are the base tag followed by \<open>first_match_tags\<close>; no tag occurs twice; each of the two
  tags is present exactly when some component belongs to its list; and the tags after any
  number \<open>n\<close> of iterations are an initial segment of the final tags.
\<close>

theorem derive_tags_scan:
  "derive_tags cs = ''spacy'' # first_match_tags cs
   \<and> distinct (derive_tags cs)
   \<and> (''token-classification'' \<in> set (derive_tags cs)) = list_ex token_component cs
   \<and> (''text-classification'' \<in> set (derive_tags cs)) = list_ex text_component cs
   \<and> prefix (derive_tags (take n cs)) (derive_tags cs)"
proof -
  have eq: "derive_tags cs = ''spacy'' # first_match_tags cs"
    by (rule derive_tags_eq)
  have "derive_tags cs = scan_components (drop n cs) (derive_tags (take n cs))"
    using scan_components_append [of "take n cs" "drop n cs" "[''spacy'']"]
    by (simp add: derive_tags_def)
  then have pre: "prefix (derive_tags (take n cs)) (derive_tags cs)"
    using scan_components_extends [of "derive_tags (take n cs)" "drop n cs"] by simp
  have "''spacy'' \<notin> set (first_match_tags cs)"
    by (simp add: set_first_match_tags)
  then have "distinct (derive_tags cs)"
    by (simp add: eq distinct_first_match_tags)
  with eq pre show ?thesis
    by (simp add: set_first_match_tags)
qed

theorem derive_tags_scan_witness:
  "derive_tags [JStr ''parser'', JStr ''textcat'', JStr ''ner'', JStr ''tagger'', JStr ''textcat'' :: real json]
     = [''spacy'', ''text-classification'', ''token-classification'']
   \<and> prefix (derive_tags (take 2 [JStr ''parser'', JStr ''textcat'', JStr ''ner'', JStr ''tagger'', JStr ''textcat'' :: real json]))
       [''spacy'', ''text-classification'', ''token-classification'']"
proof -
  have fm: "first_match_tags [JStr ''parser'', JStr ''textcat'', JStr ''ner'', JStr ''tagger'', JStr ''textcat'' :: real json]
      = [''text-classification'', ''token-classification'']"
    by (simp add: first_match_tags_def token_component_def text_component_def
        token_classification_components_def text_classification_components_def)
  note t = derive_tags_scan [of "[JStr ''parser'', JStr ''textcat'', JStr ''ner'', JStr ''tagger'', JStr ''textcat'' :: real json]" 2]
  from t have a: "derive_tags [JStr ''parser'', JStr ''textcat'', JStr ''ner'', JStr ''tagger'', JStr ''textcat'' :: real json]
      = ''spacy'' # first_match_tags [JStr ''parser'', JStr ''textcat'', JStr ''ner'', JStr ''tagger'', JStr ''textcat'' :: real json]"
    by (rule conjunct1)
  from t have b: "prefix (derive_tags (take 2 [JStr ''parser'', JStr ''textcat'', JStr ''ner'', JStr ''tagger'', JStr ''textcat'' :: real json]))
      (derive_tags [JStr ''parser'', JStr ''textcat'', JStr ''ner'', JStr ''tagger'', JStr ''textcat'' :: real json])"
    by blast
  from b show ?thesis
    unfolding a fm by simp
qed

text \<open>
  C2, as the code has it. For every component list with a component of the token
  classification list and a component of the text classification list, the tags are the
  base tag and the two classification tags, each once, in the order in which their first
  qualifying components occur: \<^verbatim>\<open>token-classification\<close> comes first exactly when the first
  token classification component precedes the first text classification component.
\<close>

theorem derive_tags_both_classes:
  assumes "list_ex token_component cs" and "list_ex text_component cs"
  shows "derive_tags cs =
     (if first_index token_component cs < first_index text_component cs
      then [''spacy'', ''token-classification'', ''text-classification'']
      else [''spacy'', ''text-classification'', ''token-classification''])"
  using assms by (simp add: derive_tags_eq first_match_tags_both)

theorem derive_tags_both_classes_witness:
  "list_ex token_component [JStr ''textcat'', JStr ''x'', JStr ''tagger'' :: real json]
   \<and> list_ex text_component [JStr ''textcat'', JStr ''x'', JStr ''tagger'' :: real json]
   \<and> \<not> first_index token_component [JStr ''textcat'', JStr ''x'', JStr ''tagger'' :: real json]
         < first_index text_component [JStr ''textcat'', JStr ''x'', JStr ''tagger'' :: real json]
   \<and> derive_tags [JStr ''textcat'', JStr ''x'', JStr ''tagger'' :: real json]
       = [''spacy'', ''text-classification'', ''token-classification'']"
proof -
  have h1: "list_ex token_component [JStr ''textcat'', JStr ''x'', JStr ''tagger'' :: real json]"
    by (simp add: token_component_def token_classification_components_def)
  have h2: "list_ex text_component [JStr ''textcat'', JStr ''x'', JStr ''tagger'' :: real json]"
    by (simp add: text_component_def text_classification_components_def)
  show ?thesis
    using h1 h2 derive_tags_both_classes [OF h1 h2]
    by (simp add: first_index_def token_component_def text_component_def
        token_classification_components_def text_classification_components_def)
qed

text \<open>
  C2 as the claim words it asks for \<^verbatim>\<open>token-classification\<close> before
  \<^verbatim>\<open>text-classification\<close> whatever the order of the components. The list
  \<^verbatim>\<open>["textcat", "ner"]\<close> has a component of each kind and gives the opposite order.
\<close>

theorem derive_tags_order_counterexample:
  "list_ex token_component [JStr ''textcat'', JStr ''ner'' :: real json]
   \<and> list_ex text_component [JStr ''textcat'', JStr ''ner'' :: real json]
   \<and> derive_tags [JStr ''textcat'', JStr ''ner'' :: real json]
       = [''spacy'', ''text-classification'', ''token-classification'']"
  by (simp add: derive_tags_def scan_component_def token_component_def text_component_def
      token_classification_components_def text_classification_components_def)

section \<open>Properties of the results index\<close>

lemma and_then_Inr [simp]: "and_then (Inr v) f = f v"
  by (simp add: and_then_def)

lemma and_then_Inl [simp]: "and_then (Inl e) f = Inl e"
  by (simp add: and_then_def)

lemma and_then_eq_Inr: "(and_then r f = Inr y) = (\<exists>v. r = Inr v \<and> f v = Inr y)"
  by (cases r) simp_all

lemma and_then_eq_Inl: "(and_then r f = Inl e) = (r = Inl e \<or> (\<exists>v. r = Inr v \<and> f v = Inl e))"
  by (cases r) simp_all

lemma task_name_task_entry [simp]: "task_name (task_entry n ms) = Some n"
  by (simp add: task_name_def task_entry_def card_field_def)

lemma append_if_in_dict:
  "append_if_in (JDict d) k entry rs =
     (if map_of d k = None then Inr rs else and_then entry (\<lambda>t. Inr (rs @ [t])))"
  by (simp add: append_if_in_def)

lemma ner_entry_dict:
  "ner_entry (JDict d) = Inr t \<longleftrightarrow>
     (\<exists>p r f. map_of d ''ents_p'' = Some p \<and> map_of d ''ents_r'' = Some r
        \<and> map_of d ''ents_f'' = Some f \<and> t = task_entry ''NER'' (create_p_r_f_list p r f))"
  by (auto simp: ner_entry_def and_then_eq_Inr split: option.splits)

lemma pos_entry_dict:
  "pos_entry (JDict d) = Inr t \<longleftrightarrow>
     (\<exists>a. map_of d ''tag_acc'' = Some a
        \<and> t = task_entry ''POS'' (JList [create_metric ''Accuracy'' ''accuracy'' a]))"
  by (auto simp: pos_entry_def and_then_eq_Inr split: option.splits)

lemma senter_entry_dict:
  "senter_entry (JDict d) = Inr t \<longleftrightarrow>
     (\<exists>p r f. map_of d ''sents_p'' = Some p \<and> map_of d ''sents_r'' = Some r
        \<and> map_of d ''sents_f'' = Some f \<and> t = task_entry ''SENTER'' (create_p_r_f_list p r f))"
  by (auto simp: senter_entry_def and_then_eq_Inr split: option.splits)

lemma uas_entry_dict:
  "uas_entry (JDict d) = Inr t \<longleftrightarrow>
     (\<exists>a. map_of d ''dep_uas'' = Some a
        \<and> t = task_entry ''UNLABELED_DEPENDENCIES'' (JList [create_metric ''Accuracy'' ''accuracy'' a]))"
  by (auto simp: uas_entry_def and_then_eq_Inr split: option.splits)

lemma las_entry_dict:
  "las_entry (JDict d) = Inr t \<longleftrightarrow>
     (\<exists>a. map_of d ''dep_uas'' = Some a
        \<and> t = task_entry ''LABELED_DEPENDENCIES'' (JList [create_metric ''Accuracy'' ''accuracy'' a]))"
  by (auto simp: las_entry_def and_then_eq_Inr split: option.splits)

lemma entry_names:
  "ner_entry (JDict d) = Inr t \<Longrightarrow> task_name t = Some ''NER''"
  "pos_entry (JDict d) = Inr t \<Longrightarrow> task_name t = Some ''POS''"
  "senter_entry (JDict d) = Inr t \<Longrightarrow> task_name t = Some ''SENTER''"
  "uas_entry (JDict d) = Inr t \<Longrightarrow> task_name t = Some ''UNLABELED_DEPENDENCIES''"
  "las_entry (JDict d) = Inr t \<Longrightarrow> task_name t = Some ''LABELED_DEPENDENCIES''"
  by (auto simp: ner_entry_dict pos_entry_dict senter_entry_dict uas_entry_dict las_entry_dict)

lemma append_if_in_names:
  assumes "append_if_in (JDict d) k entry rs = Inr rs'"
    and "\<And>t. entry = Inr t \<Longrightarrow> task_name t = Some n"
  shows "map task_name rs' = map task_name rs @ (if map_of d k = None then [] else [Some n])"
  using assms by (auto simp: append_if_in_dict and_then_eq_Inr split: if_splits)

lemma create_model_index_Inr:
  assumes "create_model_index repo_name (JDict d) = Inr idx"
  obtains r1 r2 r3 r4 r5 where
    "append_if_in (JDict d) ''ents_p'' (ner_entry (JDict d)) [] = Inr r1"
    "append_if_in (JDict d) ''tag_acc'' (pos_entry (JDict d)) r1 = Inr r2"
    "append_if_in (JDict d) ''sents_p'' (senter_entry (JDict d)) r2 = Inr r3"
    "append_if_in (JDict d) ''dep_uas'' (uas_entry (JDict d)) r3 = Inr r4"
    "append_if_in (JDict d) ''dep_las'' (las_entry (JDict d)) r4 = Inr r5"
    "idx = JDict [(''name'', JStr repo_name), (''results'', JList r5)]"
  using assms unfolding create_model_index_def and_then_eq_Inr by blast

lemma results_of_index [simp]:
  "results_of (JDict [(''name'', n), (''results'', JList rs)]) = rs"
  by (simp add: results_of_def card_field_def)

lemma create_model_index_names:
  assumes "create_model_index repo_name (JDict d) = Inr idx"
  shows "map task_name (results_of idx) = map Some (present_group_names d)"
proof -
  from assms obtain r1 r2 r3 r4 r5 where
    s1: "append_if_in (JDict d) ''ents_p'' (ner_entry (JDict d)) [] = Inr r1" and
    s2: "append_if_in (JDict d) ''tag_acc'' (pos_entry (JDict d)) r1 = Inr r2" and
    s3: "append_if_in (JDict d) ''sents_p'' (senter_entry (JDict d)) r2 = Inr r3" and
    s4: "append_if_in (JDict d) ''dep_uas'' (uas_entry (JDict d)) r3 = Inr r4" and
    s5: "append_if_in (JDict d) ''dep_las'' (las_entry (JDict d)) r4 = Inr r5" and
    idx: "idx = JDict [(''name'', JStr repo_name), (''results'', JList r5)]"
    by (rule create_model_index_Inr)
  have n1: "map task_name r1 = (if map_of d ''ents_p'' = None then [] else [Some ''NER''])"
    using append_if_in_names [OF s1 entry_names(1)] by simp
  have n2: "map task_name r2 = map task_name r1 @ (if map_of d ''tag_acc'' = None then [] else [Some ''POS''])"
    using append_if_in_names [OF s2 entry_names(2)] by simp
  have n3: "map task_name r3 = map task_name r2 @ (if map_of d ''sents_p'' = None then [] else [Some ''SENTER''])"
    using append_if_in_names [OF s3 entry_names(3)] by simp
  have n4: "map task_name r4 = map task_name r3 @ (if map_of d ''dep_uas'' = None then [] else [Some ''UNLABELED_DEPENDENCIES''])"
    using append_if_in_names [OF s4 entry_names(4)] by simp
  have n5: "map task_name r5 = map task_name r4 @ (if map_of d ''dep_las'' = None then [] else [Some ''LABELED_DEPENDENCIES''])"
    using append_if_in_names [OF s5 entry_names(5)] by simp
  show ?thesis
    unfolding idx results_of_index n5 n4 n3 n2 n1
    by (simp add: present_group_names_def metric_groups_def)
qed

lemma entry_errors:
  "ner_entry (JDict d) = Inl e \<Longrightarrow> \<exists>k. e = KeyError k \<and> map_of d k = None"
  "pos_entry (JDict d) = Inl e \<Longrightarrow> \<exists>k. e = KeyError k \<and> map_of d k = None"
  "senter_entry (JDict d) = Inl e \<Longrightarrow> \<exists>k. e = KeyError k \<and> map_of d k = None"
  "uas_entry (JDict d) = Inl e \<Longrightarrow> \<exists>k. e = KeyError k \<and> map_of d k = None"
  "las_entry (JDict d) = Inl e \<Longrightarrow> \<exists>k. e = KeyError k \<and> map_of d k = None"
  by (auto simp: ner_entry_def pos_entry_def senter_entry_def uas_entry_def las_entry_def
      and_then_eq_Inl split: option.splits)

lemma append_if_in_error:
  "append_if_in (JDict d) k entry rs = Inl e \<Longrightarrow> entry = Inl e"
  by (auto simp: append_if_in_dict and_then_eq_Inl split: if_splits)

lemma create_model_index_error:
  assumes "create_model_index repo_name (JDict d) = Inl e"
  shows "\<exists>k. e = KeyError k \<and> map_of d k = None"
proof -
  from assms consider
      "ner_entry (JDict d) = Inl e" | "pos_entry (JDict d) = Inl e"
    | "senter_entry (JDict d) = Inl e" | "uas_entry (JDict d) = Inl e"
    | "las_entry (JDict d) = Inl e"
    unfolding create_model_index_def and_then_eq_Inl
    by (auto dest: append_if_in_error)
  then show ?thesis
    by cases (auto dest: entry_errors)
qed

lemma append_if_in_total:
  assumes "map_of d k \<noteq> None \<Longrightarrow> \<exists>t. entry = Inr t"
  shows "\<exists>rs'. append_if_in (JDict d) k entry rs = Inr rs'"
  using assms by (auto simp: append_if_in_dict)

lemma ner_step_total:
  assumes "map_of d ''ents_p'' \<noteq> None \<longrightarrow> map_of d ''ents_r'' \<noteq> None \<and> map_of d ''ents_f'' \<noteq> None"
  shows "\<exists>rs'. append_if_in (JDict d) ''ents_p'' (ner_entry (JDict d)) rs = Inr rs'"
  using assms by (intro append_if_in_total) (auto simp: ner_entry_dict)

lemma pos_step_total:
  "\<exists>rs'. append_if_in (JDict d) ''tag_acc'' (pos_entry (JDict d)) rs = Inr rs'"
  by (intro append_if_in_total) (auto simp: pos_entry_dict)

lemma senter_step_total:
  assumes "map_of d ''sents_p'' \<noteq> None \<longrightarrow> map_of d ''sents_r'' \<noteq> None \<and> map_of d ''sents_f'' \<noteq> None"
  shows "\<exists>rs'. append_if_in (JDict d) ''sents_p'' (senter_entry (JDict d)) rs = Inr rs'"
  using assms by (intro append_if_in_total) (auto simp: senter_entry_dict)

lemma uas_step_total:
  "\<exists>rs'. append_if_in (JDict d) ''dep_uas'' (uas_entry (JDict d)) rs = Inr rs'"
  by (intro append_if_in_total) (auto simp: uas_entry_dict)

lemma las_step_total:
  assumes "map_of d ''dep_las'' \<noteq> None \<longrightarrow> map_of d ''dep_uas'' \<noteq> None"
  shows "\<exists>rs'. append_if_in (JDict d) ''dep_las'' (las_entry (JDict d)) rs = Inr rs'"
  using assms by (intro append_if_in_total) (auto simp: las_entry_dict)

lemma first_four_steps:
  assumes "map_of d ''ents_p'' \<noteq> None \<longrightarrow> map_of d ''ents_r'' \<noteq> None \<and> map_of d ''ents_f'' \<noteq> None"
    and "map_of d ''sents_p'' \<noteq> None \<longrightarrow> map_of d ''sents_r'' \<noteq> None \<and> map_of d ''sents_f'' \<noteq> None"
  shows "\<exists>r4. create_model_index repo_name (JDict d) =
           and_then (append_if_in (JDict d) ''dep_las'' (las_entry (JDict d)) r4) (\<lambda>results.
             Inr (JDict [(''name'', JStr repo_name), (''results'', JList results)]))"
proof -
  from ner_step_total [OF assms(1)] obtain r1 where
    s1: "append_if_in (JDict d) ''ents_p'' (ner_entry (JDict d)) [] = Inr r1" by blast
  from pos_step_total obtain r2 where
    s2: "append_if_in (JDict d) ''tag_acc'' (pos_entry (JDict d)) r1 = Inr r2" by blast
  from senter_step_total [OF assms(2)] obtain r3 where
    s3: "append_if_in (JDict d) ''sents_p'' (senter_entry (JDict d)) r2 = Inr r3" by blast
  from uas_step_total obtain r4 where
    s4: "append_if_in (JDict d) ''dep_uas'' (uas_entry (JDict d)) r3 = Inr r4" by blast
  show ?thesis
    by (rule exI [of _ r4]) (simp add: create_model_index_def s1 s2 s3 s4)
qed

lemma create_model_index_total:
  "(\<exists>idx. create_model_index repo_name (JDict d) = Inr idx) = groups_complete d"
proof
  assume "\<exists>idx. create_model_index repo_name (JDict d) = Inr idx"
  then obtain idx where "create_model_index repo_name (JDict d) = Inr idx" ..
  then obtain r1 r2 r3 r4 r5 where
    s1: "append_if_in (JDict d) ''ents_p'' (ner_entry (JDict d)) [] = Inr r1" and
    s3: "append_if_in (JDict d) ''sents_p'' (senter_entry (JDict d)) r2 = Inr r3" and
    s5: "append_if_in (JDict d) ''dep_las'' (las_entry (JDict d)) r4 = Inr r5"
    by (rule create_model_index_Inr)
  from s1 have "map_of d ''ents_p'' \<noteq> None \<longrightarrow> map_of d ''ents_r'' \<noteq> None \<and> map_of d ''ents_f'' \<noteq> None"
    by (auto simp: append_if_in_dict and_then_eq_Inr ner_entry_dict split: if_splits)
  moreover from s3 have "map_of d ''sents_p'' \<noteq> None \<longrightarrow> map_of d ''sents_r'' \<noteq> None \<and> map_of d ''sents_f'' \<noteq> None"
    by (auto simp: append_if_in_dict and_then_eq_Inr senter_entry_dict split: if_splits)
  moreover from s5 have "map_of d ''dep_las'' \<noteq> None \<longrightarrow> map_of d ''dep_uas'' \<noteq> None"
    by (auto simp: append_if_in_dict and_then_eq_Inr las_entry_dict split: if_splits)
  ultimately show "groups_complete d"
    by (simp add: groups_complete_def)
next
  assume c: "groups_complete d"
  then obtain r4 where
    eq: "create_model_index repo_name (JDict d) =
           and_then (append_if_in (JDict d) ''dep_las'' (las_entry (JDict d)) r4) (\<lambda>results.
             Inr (JDict [(''name'', JStr repo_name), (''results'', JList results)]))"
    using first_four_steps [of d repo_name] by (auto simp: groups_complete_def)
  from c obtain r5 where "append_if_in (JDict d) ''dep_las'' (las_entry (JDict d)) r4 = Inr r5"
    using las_step_total [of d r4] by (auto simp: groups_complete_def)
  with eq show "\<exists>idx. create_model_index repo_name (JDict d) = Inr idx"
    by simp
qed

lemma create_model_index_no_groups:
  assumes "present_group_names d = []"
  shows "create_model_index repo_name (JDict d) =
           Inr (JDict [(''name'', JStr repo_name), (''results'', JList [])])"
proof -
  from assms have "map_of d ''ents_p'' = None" "map_of d ''tag_acc'' = None"
    "map_of d ''sents_p'' = None" "map_of d ''dep_uas'' = None" "map_of d ''dep_las'' = None"
    by (simp_all add: present_group_names_def metric_groups_def split: if_splits)
  then show ?thesis
    by (simp add: create_model_index_def append_if_in_dict)
qed

lemma create_model_index_map_of:
  assumes "map_of d = map_of d'"
  shows "create_model_index repo_name (JDict d) = create_model_index repo_name (JDict d')"
  by (simp add: create_model_index_def append_if_in_def ner_entry_def pos_entry_def
      senter_entry_def uas_entry_def las_entry_def assms)

section \<open>Properties of the metadata card\<close>

lemma map_of_dict_set: "map_of (dict_set m k v) = (map_of m)(k \<mapsto> v)"
  by (induction m k v rule: dict_set.induct) (auto simp: fun_eq_iff)

lemma derive_tags_not_Nil: "derive_tags cs \<noteq> []"
  by (simp add: derive_tags_def scan_none_present)

lemma insert_tags:
  "insert_values_as_list [] ''tags'' (JList (map JStr (derive_tags cs)))
     = Inr [(''tags'', JList (map JStr (derive_tags cs)))]"
  by (simp add: insert_values_as_list_def derive_tags_not_Nil)

lemma create_model_card_metadata_dict:
  "create_model_card_metadata repo_name (JDict m) =
     (case map_of m ''lang'' of
        None \<Rightarrow> Inl (KeyError ''lang'')
      | Some l \<Rightarrow>
          and_then (py_replace_spaces (case map_of m ''license'' of None \<Rightarrow> JStr [] | Some v \<Rightarrow> v))
            (\<lambda>lic.
          case map_of m ''components'' of
            None \<Rightarrow> Inl (KeyError ''components'')
          | Some cv \<Rightarrow>
              and_then (py_iter cv) (\<lambda>cs.
              and_then (insert_values_as_list [(''tags'', JList (map JStr (derive_tags cs)))]
                          ''language'' (if l \<noteq> JStr ''xx'' then l else JStr ''multilingual''))
                (\<lambda>m2.
              case map_of m ''performance'' of
                None \<Rightarrow> Inl (KeyError ''performance'')
              | Some perf \<Rightarrow>
                  and_then (create_model_index repo_name perf) (\<lambda>idx.
                    Inr (JDict (dict_set (insert_value m2 ''license'' lic) ''model-index'' idx)))))))"
  by (simp add: create_model_card_metadata_def Let_def insert_tags split: option.splits)

lemma create_model_card_metadata_Inr:
  assumes "create_model_card_metadata repo_name (JDict m) = Inr md"
  obtains l lic cv cs m2 perf idx where
    "map_of m ''lang'' = Some l"
    "py_replace_spaces (case map_of m ''license'' of None \<Rightarrow> JStr [] | Some v \<Rightarrow> v) = Inr lic"
    "map_of m ''components'' = Some cv"
    "py_iter cv = Inr cs"
    "insert_values_as_list [(''tags'', JList (map JStr (derive_tags cs)))]
        ''language'' (if l \<noteq> JStr ''xx'' then l else JStr ''multilingual'') = Inr m2"
    "map_of m ''performance'' = Some perf"
    "create_model_index repo_name perf = Inr idx"
    "md = JDict (dict_set (insert_value m2 ''license'' lic) ''model-index'' idx)"
  using assms unfolding create_model_card_metadata_dict
  by (auto simp: and_then_eq_Inr split: option.splits)

lemma py_replace_spaces_Inr:
  "py_replace_spaces v = Inr lic \<longleftrightarrow> (\<exists>s. v = JStr s \<and> lic = JStr (replace_spaces s))"
  by (cases v) auto

lemma insert_language_Inr:
  assumes "insert_values_as_list m1 ''language'' l = Inr m2"
  shows "map_of m2 =
     (case l of
        JNull \<Rightarrow> map_of m1
      | JStr s \<Rightarrow> (map_of m1)(''language'' \<mapsto> JList [JStr s])
      | JList xs \<Rightarrow> if xs = [] then map_of m1 else (map_of m1)(''language'' \<mapsto> l)
      | JDict kvs \<Rightarrow> if kvs = [] then map_of m1 else (map_of m1)(''language'' \<mapsto> l)
      | _ \<Rightarrow> map_of m1)"
  using assms
  by (cases l) (auto simp: insert_values_as_list_def map_of_dict_set split: if_splits)

lemma map_of_insert_value:
  "map_of (insert_value m k v) = (if v = JNull \<or> v = JStr [] then map_of m else (map_of m)(k \<mapsto> v))"
  by (simp add: insert_value_def map_of_dict_set)

section \<open>The claims about the results index\<close>

lemmas index_defs =
  create_model_index_def append_if_in_def ner_entry_def pos_entry_def senter_entry_def
  uas_entry_def las_entry_def

lemmas card_defs =
  create_model_card_metadata_def insert_values_as_list_def insert_value_def derive_tags_def
  scan_component_def token_classification_components_def text_classification_components_def
  replace_spaces_def Let_def

text \<open>
  C1. For every performance mapping that contains \<^verbatim>\<open>dep_las\<close>: whenever the index is
  built, the mapping also has \<^verbatim>\<open>dep_uas\<close>, the last results entry is the entry with task
  name \<^verbatim>\<open>LABELED_DEPENDENCIES\<close> and task type \<^verbatim>\<open>token-classification\<close>, no entry before it
  has that name, and its metrics are exactly one metric, with name \<^verbatim>\<open>Accuracy\<close>, type
  \<^verbatim>\<open>accuracy\<close> and the value of \<^verbatim>\<open>dep_uas\<close>; when the values of \<^verbatim>\<open>dep_uas\<close> and
  \<^verbatim>\<open>dep_las\<close> differ, the entry is not the one that the value of \<^verbatim>\<open>dep_las\<close> would give.
  The index is built whenever every present metric group is complete.
\<close>

theorem labeled_dependencies_entry:
  assumes "map_of d ''dep_las'' = Some las"
  shows "(create_model_index repo_name (JDict d) = Inr idx \<longrightarrow>
      (\<exists>uas rs. map_of d ''dep_uas'' = Some uas
         \<and> idx = JDict [(''name'', JStr repo_name), (''results'', JList (rs @
             [JDict [(''tasks'', JDict
                [(''name'', JStr ''LABELED_DEPENDENCIES''),
                 (''type'', JStr ''token-classification''),
                 (''metrics'', JList
                    [JDict [(''name'', JStr ''Accuracy''), (''type'', JStr ''accuracy''),
                            (''value'', uas)]])])]]))]
         \<and> filter (\<lambda>e. task_name e = Some ''LABELED_DEPENDENCIES'') rs = []
         \<and> filter (\<lambda>e. task_name e = Some ''LABELED_DEPENDENCIES'') (results_of idx) =
             [JDict [(''tasks'', JDict
                [(''name'', JStr ''LABELED_DEPENDENCIES''),
                 (''type'', JStr ''token-classification''),
                 (''metrics'', JList
                    [JDict [(''name'', JStr ''Accuracy''), (''type'', JStr ''accuracy''),
                            (''value'', uas)]])])]]
         \<and> (uas \<noteq> las \<longrightarrow>
              filter (\<lambda>e. task_name e = Some ''LABELED_DEPENDENCIES'') (results_of idx) \<noteq>
               [JDict [(''tasks'', JDict
                  [(''name'', JStr ''LABELED_DEPENDENCIES''),
                   (''type'', JStr ''token-classification''),
                   (''metrics'', JList
                      [JDict [(''name'', JStr ''Accuracy''), (''type'', JStr ''accuracy''),
                              (''value'', las)]])])]])))
     \<and> (groups_complete d \<longrightarrow> (\<exists>i. create_model_index repo_name (JDict d) = Inr i))"
proof (intro conjI impI)
  assume ok: "create_model_index repo_name (JDict d) = Inr idx"
  then obtain r1 r2 r3 r4 r5 where
    s1: "append_if_in (JDict d) ''ents_p'' (ner_entry (JDict d)) [] = Inr r1" and
    s2: "append_if_in (JDict d) ''tag_acc'' (pos_entry (JDict d)) r1 = Inr r2" and
    s3: "append_if_in (JDict d) ''sents_p'' (senter_entry (JDict d)) r2 = Inr r3" and
    s4: "append_if_in (JDict d) ''dep_uas'' (uas_entry (JDict d)) r3 = Inr r4" and
    s5: "append_if_in (JDict d) ''dep_las'' (las_entry (JDict d)) r4 = Inr r5" and
    idx: "idx = JDict [(''name'', JStr repo_name), (''results'', JList r5)]"
    by (rule create_model_index_Inr)
  have n1: "map task_name r1 = (if map_of d ''ents_p'' = None then [] else [Some ''NER''])"
    using append_if_in_names [OF s1 entry_names(1)] by simp
  have n2: "map task_name r2 = map task_name r1 @ (if map_of d ''tag_acc'' = None then [] else [Some ''POS''])"
    using append_if_in_names [OF s2 entry_names(2)] by simp
  have n3: "map task_name r3 = map task_name r2 @ (if map_of d ''sents_p'' = None then [] else [Some ''SENTER''])"
    using append_if_in_names [OF s3 entry_names(3)] by simp
  have n4: "map task_name r4 = map task_name r3 @ (if map_of d ''dep_uas'' = None then [] else [Some ''UNLABELED_DEPENDENCIES''])"
    using append_if_in_names [OF s4 entry_names(4)] by simp
  have "Some ''LABELED_DEPENDENCIES'' \<notin> set (map task_name r4)"
    unfolding n4 n3 n2 n1 by simp
  then have none: "filter (\<lambda>e. task_name e = Some ''LABELED_DEPENDENCIES'') r4 = []"
    by (auto simp: filter_empty_conv image_iff)
  from s5 assms obtain uas where
    uas: "map_of d ''dep_uas'' = Some uas" and
    r5: "r5 = r4 @ [task_entry ''LABELED_DEPENDENCIES'' (JList [create_metric ''Accuracy'' ''accuracy'' uas])]"
    by (auto simp: append_if_in_dict and_then_eq_Inr las_entry_dict)
  have shape: "idx = JDict [(''name'', JStr repo_name), (''results'', JList (r4 @
      [task_entry ''LABELED_DEPENDENCIES'' (JList [create_metric ''Accuracy'' ''accuracy'' uas])]))]"
    by (simp add: idx r5)
  have only: "filter (\<lambda>e. task_name e = Some ''LABELED_DEPENDENCIES'') (results_of idx)
         = [task_entry ''LABELED_DEPENDENCIES'' (JList [create_metric ''Accuracy'' ''accuracy'' uas])]"
    by (simp add: idx r5 none)
  have differ: "uas \<noteq> las \<longrightarrow>
      filter (\<lambda>e. task_name e = Some ''LABELED_DEPENDENCIES'') (results_of idx)
        \<noteq> [task_entry ''LABELED_DEPENDENCIES'' (JList [create_metric ''Accuracy'' ''accuracy'' las])]"
    unfolding only by (simp add: task_entry_def create_metric_def)
  from uas shape none only differ have
    "\<exists>uas rs. map_of d ''dep_uas'' = Some uas
       \<and> idx = JDict [(''name'', JStr repo_name), (''results'', JList (rs @
           [task_entry ''LABELED_DEPENDENCIES'' (JList [create_metric ''Accuracy'' ''accuracy'' uas])]))]
       \<and> filter (\<lambda>e. task_name e = Some ''LABELED_DEPENDENCIES'') rs = []
       \<and> filter (\<lambda>e. task_name e = Some ''LABELED_DEPENDENCIES'') (results_of idx)
           = [task_entry ''LABELED_DEPENDENCIES'' (JList [create_metric ''Accuracy'' ''accuracy'' uas])]
       \<and> (uas \<noteq> las \<longrightarrow>
            filter (\<lambda>e. task_name e = Some ''LABELED_DEPENDENCIES'') (results_of idx)
              \<noteq> [task_entry ''LABELED_DEPENDENCIES'' (JList [create_metric ''Accuracy'' ''accuracy'' las])])"
    by blast
  then show "\<exists>uas rs. map_of d ''dep_uas'' = Some uas
         \<and> idx = JDict [(''name'', JStr repo_name), (''results'', JList (rs @
             [JDict [(''tasks'', JDict
                [(''name'', JStr ''LABELED_DEPENDENCIES''),
                 (''type'', JStr ''token-classification''),
                 (''metrics'', JList
                    [JDict [(''name'', JStr ''Accuracy''), (''type'', JStr ''accuracy''),
                            (''value'', uas)]])])]]))]
         \<and> filter (\<lambda>e. task_name e = Some ''LABELED_DEPENDENCIES'') rs = []
         \<and> filter (\<lambda>e. task_name e = Some ''LABELED_DEPENDENCIES'') (results_of idx) =
             [JDict [(''tasks'', JDict
                [(''name'', JStr ''LABELED_DEPENDENCIES''),
                 (''type'', JStr ''token-classification''),
                 (''metrics'', JList
                    [JDict [(''name'', JStr ''Accuracy''), (''type'', JStr ''accuracy''),
                            (''value'', uas)]])])]]
         \<and> (uas \<noteq> las \<longrightarrow>
              filter (\<lambda>e. task_name e = Some ''LABELED_DEPENDENCIES'') (results_of idx) \<noteq>
               [JDict [(''tasks'', JDict
                  [(''name'', JStr ''LABELED_DEPENDENCIES''),
                   (''type'', JStr ''token-classification''),
                   (''metrics'', JList
                      [JDict [(''name'', JStr ''Accuracy''), (''type'', JStr ''accuracy''),
                              (''value'', las)]])])]])"
    unfolding task_entry_def create_metric_def .
next
  assume "groups_complete d"
  then show "\<exists>i. create_model_index repo_name (JDict d) = Inr i"
    by (simp add: create_model_index_total)
qed

theorem labeled_dependencies_entry_witness:
  "create_model_index ''m'' (JDict [(''dep_las'', JNum (8/10)), (''dep_uas'', JNum (9/10 :: real))])
     = Inr (JDict [(''name'', JStr ''m''), (''results'', JList
         [JDict [(''tasks'', JDict
            [(''name'', JStr ''UNLABELED_DEPENDENCIES''),
             (''type'', JStr ''token-classification''),
             (''metrics'', JList
                [JDict [(''name'', JStr ''Accuracy''), (''type'', JStr ''accuracy''),
                        (''value'', JNum (9/10))]])])],
          JDict [(''tasks'', JDict
            [(''name'', JStr ''LABELED_DEPENDENCIES''),
             (''type'', JStr ''token-classification''),
             (''metrics'', JList
                [JDict [(''name'', JStr ''Accuracy''), (''type'', JStr ''accuracy''),
                        (''value'', JNum (9/10))]])])]])])
   \<and> (\<exists>i. create_model_index ''m''
          (JDict [(''dep_las'', JNum (8/10)), (''dep_uas'', JNum (9/10 :: real))]) = Inr i
        \<and> filter (\<lambda>e. task_name e = Some ''LABELED_DEPENDENCIES'') (results_of i) =
             [JDict [(''tasks'', JDict
                [(''name'', JStr ''LABELED_DEPENDENCIES''),
                 (''type'', JStr ''token-classification''),
                 (''metrics'', JList
                    [JDict [(''name'', JStr ''Accuracy''), (''type'', JStr ''accuracy''),
                            (''value'', JNum (9/10))]])])]]
        \<and> filter (\<lambda>e. task_name e = Some ''LABELED_DEPENDENCIES'') (results_of i) \<noteq>
             [JDict [(''tasks'', JDict
                [(''name'', JStr ''LABELED_DEPENDENCIES''),
                 (''type'', JStr ''token-classification''),
                 (''metrics'', JList
                    [JDict [(''name'', JStr ''Accuracy''), (''type'', JStr ''accuracy''),
                            (''value'', JNum (8/10))]])])]])"
proof -
  have h1: "map_of [(''dep_las'', JNum (8/10)), (''dep_uas'', JNum (9/10 :: real))] ''dep_las''
     = Some (JNum (8/10))"
    by simp
  have h2: "groups_complete [(''dep_las'', JNum (8/10)), (''dep_uas'', JNum (9/10 :: real))]"
    by (simp add: groups_complete_def)
  have h3: "map_of [(''dep_las'', JNum (8/10)), (''dep_uas'', JNum (9/10 :: real))] ''dep_uas''
     = Some (JNum (9/10))"
    by simp
  from labeled_dependencies_entry [OF h1, of "''m''", THEN conjunct2, THEN mp, OF h2]
  obtain i where i: "create_model_index ''m''
      (JDict [(''dep_las'', JNum (8/10)), (''dep_uas'', JNum (9/10 :: real))]) = Inr i" ..
  from labeled_dependencies_entry [OF h1, of "''m''" i, THEN conjunct1, THEN mp, OF i] h3
  have "filter (\<lambda>e. task_name e = Some ''LABELED_DEPENDENCIES'') (results_of i) =
             [JDict [(''tasks'', JDict
                [(''name'', JStr ''LABELED_DEPENDENCIES''),
                 (''type'', JStr ''token-classification''),
                 (''metrics'', JList
                    [JDict [(''name'', JStr ''Accuracy''), (''type'', JStr ''accuracy''),
                            (''value'', JNum (9/10))]])])]]"
    by auto
  with i have second: "\<exists>i. create_model_index ''m''
          (JDict [(''dep_las'', JNum (8/10)), (''dep_uas'', JNum (9/10 :: real))]) = Inr i
        \<and> filter (\<lambda>e. task_name e = Some ''LABELED_DEPENDENCIES'') (results_of i) =
             [JDict [(''tasks'', JDict
                [(''name'', JStr ''LABELED_DEPENDENCIES''),
                 (''type'', JStr ''token-classification''),
                 (''metrics'', JList
                    [JDict [(''name'', JStr ''Accuracy''), (''type'', JStr ''accuracy''),
                            (''value'', JNum (9/10))]])])]]
        \<and> filter (\<lambda>e. task_name e = Some ''LABELED_DEPENDENCIES'') (results_of i) \<noteq>
             [JDict [(''tasks'', JDict
                [(''name'', JStr ''LABELED_DEPENDENCIES''),
                 (''type'', JStr ''token-classification''),
                 (''metrics'', JList
                    [JDict [(''name'', JStr ''Accuracy''), (''type'', JStr ''accuracy''),
                            (''value'', JNum (8/10))]])])]]"
    by auto
  have first: "create_model_index ''m'' (JDict [(''dep_las'', JNum (8/10)), (''dep_uas'', JNum (9/10 :: real))])
     = Inr (JDict [(''name'', JStr ''m''), (''results'', JList
         [JDict [(''tasks'', JDict
            [(''name'', JStr ''UNLABELED_DEPENDENCIES''),
             (''type'', JStr ''token-classification''),
             (''metrics'', JList
                [JDict [(''name'', JStr ''Accuracy''), (''type'', JStr ''accuracy''),
                        (''value'', JNum (9/10))]])])],
          JDict [(''tasks'', JDict
            [(''name'', JStr ''LABELED_DEPENDENCIES''),
             (''type'', JStr ''token-classification''),
             (''metrics'', JList
                [JDict [(''name'', JStr ''Accuracy''), (''type'', JStr ''accuracy''),
                        (''value'', JNum (9/10))]])])]])])"
    by (simp add: index_defs task_entry_def create_metric_def)
  from first second show ?thesis
    by (rule conjI)
qed

text \<open>
  C7. For every performance mapping: when the index is built, it carries the repository
  name and its results are one entry per present metric group, none for an absent group,
  in the fixed order NER, POS, SENTER, UNLABELED_DEPENDENCIES, LABELED_DEPENDENCIES; the
  index is built exactly when every present group is complete; with no group present the
  index is built and its results are the empty list; and two mappings with the same keys
  and values, in whatever key order, give the same outcome.
\<close>

theorem results_index_groups:
  "(create_model_index repo_name (JDict d) = Inr idx \<longrightarrow>
      card_field idx ''name'' = Some (JStr repo_name)
      \<and> map task_name (results_of idx) = map Some (present_group_names d))
   \<and> ((\<exists>i. create_model_index repo_name (JDict d) = Inr i) = groups_complete d)
   \<and> (present_group_names d = [] \<longrightarrow>
        create_model_index repo_name (JDict d)
          = Inr (JDict [(''name'', JStr repo_name), (''results'', JList [])]))
   \<and> (map_of d' = map_of d \<longrightarrow>
        create_model_index repo_name (JDict d') = create_model_index repo_name (JDict d))"
proof (intro conjI impI)
  assume ok: "create_model_index repo_name (JDict d) = Inr idx"
  then show "card_field idx ''name'' = Some (JStr repo_name)"
    by (rule create_model_index_Inr) (simp add: card_field_def)
  from ok show "map task_name (results_of idx) = map Some (present_group_names d)"
    by (rule create_model_index_names)
next
  show "(\<exists>i. create_model_index repo_name (JDict d) = Inr i) = groups_complete d"
    by (rule create_model_index_total)
next
  assume "present_group_names d = []"
  then show "create_model_index repo_name (JDict d)
      = Inr (JDict [(''name'', JStr repo_name), (''results'', JList [])])"
    by (rule create_model_index_no_groups)
next
  assume "map_of d' = map_of d"
  then show "create_model_index repo_name (JDict d') = create_model_index repo_name (JDict d)"
    by (rule create_model_index_map_of)
qed

theorem results_index_groups_witness:
  "map task_name (results_of (JDict [(''name'', JStr ''m''), (''results'', JList
      [task_entry ''POS'' (JList [create_metric ''Accuracy'' ''accuracy'' (JNum (95/100 :: real))]),
       task_entry ''UNLABELED_DEPENDENCIES'' (JList [create_metric ''Accuracy'' ''accuracy'' (JNum (9/10))]),
       task_entry ''LABELED_DEPENDENCIES'' (JList [create_metric ''Accuracy'' ''accuracy'' (JNum (9/10))])])]))
     = [Some ''POS'', Some ''UNLABELED_DEPENDENCIES'', Some ''LABELED_DEPENDENCIES'']
   \<and> groups_complete [(''dep_las'', JNum (8/10)), (''dep_uas'', JNum (9/10)), (''tag_acc'', JNum (95/100 :: real))]
   \<and> create_model_index ''m'' (JDict [(''tag_acc'', JNum (95/100)), (''dep_uas'', JNum (9/10)), (''dep_las'', JNum (8/10 :: real))])
     = create_model_index ''m'' (JDict [(''dep_las'', JNum (8/10)), (''dep_uas'', JNum (9/10)), (''tag_acc'', JNum (95/100 :: real))])
   \<and> create_model_index ''m'' (JDict [(''ents_r'', JNum (8/10 :: real))])
     = Inr (JDict [(''name'', JStr ''m''), (''results'', JList [])])"
proof -
  have h1: "create_model_index ''m'' (JDict [(''dep_las'', JNum (8/10)), (''dep_uas'', JNum (9/10)), (''tag_acc'', JNum (95/100 :: real))])
    = Inr (JDict [(''name'', JStr ''m''), (''results'', JList
      [task_entry ''POS'' (JList [create_metric ''Accuracy'' ''accuracy'' (JNum (95/100 :: real))]),
       task_entry ''UNLABELED_DEPENDENCIES'' (JList [create_metric ''Accuracy'' ''accuracy'' (JNum (9/10))]),
       task_entry ''LABELED_DEPENDENCIES'' (JList [create_metric ''Accuracy'' ''accuracy'' (JNum (9/10))])])])"
    by (simp add: index_defs)
  have h2: "map_of [(''tag_acc'', JNum (95/100)), (''dep_uas'', JNum (9/10)), (''dep_las'', JNum (8/10 :: real))]
    = map_of [(''dep_las'', JNum (8/10)), (''dep_uas'', JNum (9/10)), (''tag_acc'', JNum (95/100 :: real))]"
    by (auto simp: fun_eq_iff)
  have h3: "present_group_names [(''dep_las'', JNum (8/10)), (''dep_uas'', JNum (9/10)), (''tag_acc'', JNum (95/100 :: real))]
    = [''POS'', ''UNLABELED_DEPENDENCIES'', ''LABELED_DEPENDENCIES'']"
    by (simp add: present_group_names_def metric_groups_def)
  have h4: "present_group_names [(''ents_r'', JNum (8/10 :: real))] = []"
    by (simp add: present_group_names_def metric_groups_def)
  note a = results_index_groups [of "''m''"
      "[(''dep_las'', JNum (8/10)), (''dep_uas'', JNum (9/10)), (''tag_acc'', JNum (95/100 :: real))]"
      "JDict [(''name'', JStr ''m''), (''results'', JList
      [task_entry ''POS'' (JList [create_metric ''Accuracy'' ''accuracy'' (JNum (95/100 :: real))]),
       task_entry ''UNLABELED_DEPENDENCIES'' (JList [create_metric ''Accuracy'' ''accuracy'' (JNum (9/10))]),
       task_entry ''LABELED_DEPENDENCIES'' (JList [create_metric ''Accuracy'' ''accuracy'' (JNum (9/10))])])]"
      "[(''tag_acc'', JNum (95/100)), (''dep_uas'', JNum (9/10)), (''dep_las'', JNum (8/10 :: real))]"]
  note b = results_index_groups [of "''m''" "[(''ents_r'', JNum (8/10 :: real))]"]
  note c1 = a [THEN conjunct1, THEN mp, OF h1, THEN conjunct2, unfolded h3]
  have "\<exists>i. create_model_index ''m'' (JDict [(''dep_las'', JNum (8/10)), (''dep_uas'', JNum (9/10)), (''tag_acc'', JNum (95/100 :: real))]) = Inr i"
    using h1 by (rule exI)
  note c2 = a [THEN conjunct2, THEN conjunct1, THEN iffD1, OF this]
  note c3 = a [THEN conjunct2, THEN conjunct2, THEN conjunct2, THEN mp, OF h2]
  note c4 = b [THEN conjunct2, THEN conjunct2, THEN conjunct1, THEN mp, OF h4]
  from c1 have c1': "map task_name (results_of (JDict [(''name'', JStr ''m''), (''results'', JList
      [task_entry ''POS'' (JList [create_metric ''Accuracy'' ''accuracy'' (JNum (95/100 :: real))]),
       task_entry ''UNLABELED_DEPENDENCIES'' (JList [create_metric ''Accuracy'' ''accuracy'' (JNum (9/10))]),
       task_entry ''LABELED_DEPENDENCIES'' (JList [create_metric ''Accuracy'' ''accuracy'' (JNum (9/10))])])]))
     = [Some ''POS'', Some ''UNLABELED_DEPENDENCIES'', Some ''LABELED_DEPENDENCIES'']"
    by (simp only: list.map)
  from c1' c2 c3 c4 show ?thesis
    by (intro conjI)
qed

lemma las_step_fails:
  assumes "map_of d ''dep_las'' = Some las" and "map_of d ''dep_uas'' = None"
  shows "append_if_in (JDict d) ''dep_las'' (las_entry (JDict d)) rs = Inl (KeyError ''dep_uas'')"
  using assms by (simp add: append_if_in_dict las_entry_def)

lemma create_model_card_metadata_needs_index:
  assumes "create_model_card_metadata repo_name data = Inr md"
  shows "\<exists>perf idx. py_getitem data ''performance'' = Inr perf
           \<and> create_model_index repo_name perf = Inr idx"
  using assms unfolding create_model_card_metadata_def Let_def and_then_eq_Inr by blast

text \<open>
  C10. For every performance mapping that contains \<^verbatim>\<open>dep_las\<close> but not \<^verbatim>\<open>dep_uas\<close>,
  \<^verbatim>\<open>_create_model_index\<close> fails with a KeyError for a key the mapping lacks; the key is
  \<^verbatim>\<open>dep_uas\<close> whenever the NER and SENTER groups do not fail before; and no manifest whose
  performance value is such a mapping gets a card.
\<close>

theorem labeled_without_unlabeled_fails:
  assumes "map_of d ''dep_las'' = Some las" and "map_of d ''dep_uas'' = None"
  shows "(\<exists>k. create_model_index repo_name (JDict d) = Inl (KeyError k) \<and> map_of d k = None)
     \<and> ((map_of d ''ents_p'' \<noteq> None \<longrightarrow> map_of d ''ents_r'' \<noteq> None \<and> map_of d ''ents_f'' \<noteq> None)
          \<and> (map_of d ''sents_p'' \<noteq> None \<longrightarrow> map_of d ''sents_r'' \<noteq> None \<and> map_of d ''sents_f'' \<noteq> None)
        \<longrightarrow> create_model_index repo_name (JDict d) = Inl (KeyError ''dep_uas''))
     \<and> (py_getitem data ''performance'' = Inr (JDict d)
        \<longrightarrow> (\<exists>e. create_model_card_metadata repo_name data = Inl e))"
proof (intro conjI impI)
  from assms have "\<not> groups_complete d"
    by (simp add: groups_complete_def)
  then have no: "create_model_index repo_name (JDict d) \<noteq> Inr idx" for idx
    using create_model_index_total [of repo_name d] by blast
  then obtain e where e: "create_model_index repo_name (JDict d) = Inl e"
    by (cases "create_model_index repo_name (JDict d)") auto
  with create_model_index_error [OF e]
  show "\<exists>k. create_model_index repo_name (JDict d) = Inl (KeyError k) \<and> map_of d k = None"
    by auto
  show "\<exists>e. create_model_card_metadata repo_name data = Inl e"
    if "py_getitem data ''performance'' = Inr (JDict d)"
  proof (cases "create_model_card_metadata repo_name data")
    case (Inl e)
    then show ?thesis by blast
  next
    case (Inr md)
    from create_model_card_metadata_needs_index [OF Inr] that no show ?thesis
      by auto
  qed
next
  assume "(map_of d ''ents_p'' \<noteq> None \<longrightarrow> map_of d ''ents_r'' \<noteq> None \<and> map_of d ''ents_f'' \<noteq> None)
          \<and> (map_of d ''sents_p'' \<noteq> None \<longrightarrow> map_of d ''sents_r'' \<noteq> None \<and> map_of d ''sents_f'' \<noteq> None)"
  then obtain r4 where
    "create_model_index repo_name (JDict d) =
       and_then (append_if_in (JDict d) ''dep_las'' (las_entry (JDict d)) r4) (\<lambda>results.
         Inr (JDict [(''name'', JStr repo_name), (''results'', JList results)]))"
    using first_four_steps [of d repo_name] by blast
  then show "create_model_index repo_name (JDict d) = Inl (KeyError ''dep_uas'')"
    by (simp add: las_step_fails [OF assms])
qed

theorem labeled_without_unlabeled_fails_witness:
  "create_model_index ''m'' (JDict [(''tag_acc'', JNum (95/100)), (''dep_las'', JNum (8/10 :: real))])
     = Inl (KeyError ''dep_uas'')
   \<and> (\<exists>e. create_model_card_metadata ''m''
          (JDict [(''lang'', JStr ''en''), (''components'', JList [JStr ''parser'']),
                  (''performance'', JDict [(''tag_acc'', JNum (95/100)), (''dep_las'', JNum (8/10 :: real))])])
        = Inl e)"
proof -
  have h1: "map_of [(''tag_acc'', JNum (95/100)), (''dep_las'', JNum (8/10 :: real))] ''dep_las''
      = Some (JNum (8/10))"
    by simp
  have h2: "map_of [(''tag_acc'', JNum (95/100)), (''dep_las'', JNum (8/10 :: real))] ''dep_uas'' = None"
    by simp
  have h3: "(map_of [(''tag_acc'', JNum (95/100)), (''dep_las'', JNum (8/10 :: real))] ''ents_p'' \<noteq> None
        \<longrightarrow> map_of [(''tag_acc'', JNum (95/100)), (''dep_las'', JNum (8/10 :: real))] ''ents_r'' \<noteq> None
          \<and> map_of [(''tag_acc'', JNum (95/100)), (''dep_las'', JNum (8/10 :: real))] ''ents_f'' \<noteq> None)
     \<and> (map_of [(''tag_acc'', JNum (95/100)), (''dep_las'', JNum (8/10 :: real))] ''sents_p'' \<noteq> None
        \<longrightarrow> map_of [(''tag_acc'', JNum (95/100)), (''dep_las'', JNum (8/10 :: real))] ''sents_r'' \<noteq> None
          \<and> map_of [(''tag_acc'', JNum (95/100)), (''dep_las'', JNum (8/10 :: real))] ''sents_f'' \<noteq> None)"
    by simp
  have h4: "py_getitem (JDict [(''lang'', JStr ''en''), (''components'', JList [JStr ''parser'']),
                  (''performance'', JDict [(''tag_acc'', JNum (95/100)), (''dep_las'', JNum (8/10 :: real))])])
       ''performance'' = Inr (JDict [(''tag_acc'', JNum (95/100)), (''dep_las'', JNum (8/10 :: real))])"
    by simp
  note t = labeled_without_unlabeled_fails [OF h1 h2, of "''m''"
      "JDict [(''lang'', JStr ''en''), (''components'', JList [JStr ''parser'']),
                  (''performance'', JDict [(''tag_acc'', JNum (95/100)), (''dep_las'', JNum (8/10 :: real))])]"]
  note c1 = t [THEN conjunct2, THEN conjunct1, THEN mp, OF h3]
  note c2 = t [THEN conjunct2, THEN conjunct2, THEN mp, OF h4]
  from c1 c2 show ?thesis
    by (intro conjI)
qed

section \<open>The claims about the metadata card\<close>

lemma replace_spaces_nth:
  "length (replace_spaces s) = length s
   \<and> (i < length s \<longrightarrow>
        replace_spaces s ! i = (if s ! i = CHR '' '' then CHR ''-'' else s ! i))"
  by (simp add: replace_spaces_def)

lemma replace_spaces_Nil_iff: "replace_spaces s = [] \<longleftrightarrow> s = []"
  by (simp add: replace_spaces_def)

lemma card_field_metadata:
  assumes "create_model_card_metadata repo_name (JDict m) = Inr md"
  obtains l s cv cs m2 perf idx where
    "map_of m ''lang'' = Some l"
    "(case map_of m ''license'' of None \<Rightarrow> JStr [] | Some v \<Rightarrow> v) = JStr s"
    "map_of m ''components'' = Some cv"
    "py_iter cv = Inr cs"
    "insert_values_as_list [(''tags'', JList (map JStr (derive_tags cs)))]
        ''language'' (if l \<noteq> JStr ''xx'' then l else JStr ''multilingual'') = Inr m2"
    "map_of m ''performance'' = Some perf"
    "create_model_index repo_name perf = Inr idx"
    "card_field md =
       ((if s = [] then map_of m2 else (map_of m2)(''license'' \<mapsto> JStr (replace_spaces s)))
          (''model-index'' \<mapsto> idx))"
proof -
  from assms obtain l lic cv cs m2 perf idx where
    a: "map_of m ''lang'' = Some l"
    "py_replace_spaces (case map_of m ''license'' of None \<Rightarrow> JStr [] | Some v \<Rightarrow> v) = Inr lic"
    "map_of m ''components'' = Some cv"
    "py_iter cv = Inr cs"
    "insert_values_as_list [(''tags'', JList (map JStr (derive_tags cs)))]
        ''language'' (if l \<noteq> JStr ''xx'' then l else JStr ''multilingual'') = Inr m2"
    "map_of m ''performance'' = Some perf"
    "create_model_index repo_name perf = Inr idx"
    "md = JDict (dict_set (insert_value m2 ''license'' lic) ''model-index'' idx)"
    by (rule create_model_card_metadata_Inr)
  from a(2) obtain s where
    s: "(case map_of m ''license'' of None \<Rightarrow> JStr [] | Some v \<Rightarrow> v) = JStr s"
    "lic = JStr (replace_spaces s)"
    by (auto simp: py_replace_spaces_Inr)
  have cf: "card_field md =
       ((if s = [] then map_of m2 else (map_of m2)(''license'' \<mapsto> JStr (replace_spaces s)))
          (''model-index'' \<mapsto> idx))"
    by (auto simp: a(8) s(2) card_field_def map_of_dict_set map_of_insert_value
        replace_spaces_Nil_iff fun_eq_iff)
  show ?thesis
    by (rule that [OF a(1) s(1) a(3) a(4) a(5) a(6) a(7) cf])
qed

lemma card_tags:
  assumes "create_model_card_metadata repo_name (JDict m) = Inr md"
  shows "\<exists>cv cs. map_of m ''components'' = Some cv \<and> py_iter cv = Inr cs
     \<and> card_field md ''tags'' = Some (JList (map JStr (derive_tags cs)))"
proof -
  from assms obtain l ls cv cs m2 perf idx where
    l: "map_of m ''lang'' = Some l" and
    ls: "(case map_of m ''license'' of None \<Rightarrow> JStr [] | Some v \<Rightarrow> v) = JStr ls" and
    cv: "map_of m ''components'' = Some cv" and
    cs: "py_iter cv = Inr cs" and
    m2: "insert_values_as_list [(''tags'', JList (map JStr (derive_tags cs)))]
        ''language'' (if l \<noteq> JStr ''xx'' then l else JStr ''multilingual'') = Inr m2" and
    perf: "map_of m ''performance'' = Some perf" and
    idx: "create_model_index repo_name perf = Inr idx" and
    md: "card_field md =
       ((if ls = [] then map_of m2 else (map_of m2)(''license'' \<mapsto> JStr (replace_spaces ls)))
          (''model-index'' \<mapsto> idx))"
    by (rule card_field_metadata)
  have "map_of m2 ''tags'' = Some (JList (map JStr (derive_tags cs)))"
    using insert_language_Inr [OF m2]
    by (simp split: json.splits if_splits)
  then have "card_field md ''tags'' = Some (JList (map JStr (derive_tags cs)))"
    by (simp add: md)
  with cv cs show ?thesis by blast
qed

lemma card_produced:
  assumes "map_of m ''lang'' = Some l" and "l = JNull \<or> is_str l \<or> is_list l"
    and "map_of m ''license'' = None \<or> (\<exists>t. map_of m ''license'' = Some (JStr t))"
    and "map_of m ''components'' = Some (JList cs)"
    and "map_of m ''performance'' = Some (JDict d)" and "groups_complete d"
  shows "\<exists>card. create_model_card_metadata repo_name (JDict m) = Inr card"
proof -
  from assms(6) obtain idx where "create_model_index repo_name (JDict d) = Inr idx"
    using create_model_index_total [of repo_name d] by blast
  with assms(1-5) show ?thesis
    by (auto simp: create_model_card_metadata_dict is_str_def is_list_def
        insert_values_as_list_def split: json.splits)
qed

text \<open>
  C5. For every manifest whose language code is a string: whenever a card is produced,
  its \<^verbatim>\<open>language\<close> field is the singleton list \<^verbatim>\<open>["multilingual"]\<close> when the code is the
  reserved value \<^verbatim>\<open>xx\<close>, and the singleton list of the code, unchanged, for every other
  code. A card is produced, with that field, whenever the license is absent or a string,
  the components are a list and the performance value is a mapping whose present groups
  are complete.
\<close>

theorem language_field:
  assumes "map_of m ''lang'' = Some (JStr s)"
  shows "(create_model_card_metadata repo_name (JDict m) = Inr md \<longrightarrow>
           card_field md ''language''
             = Some (JList [JStr (if s = ''xx'' then ''multilingual'' else s)]))
     \<and> ((map_of m ''license'' = None \<or> (\<exists>t. map_of m ''license'' = Some (JStr t)))
          \<and> map_of m ''components'' = Some (JList cs)
          \<and> map_of m ''performance'' = Some (JDict d) \<and> groups_complete d \<longrightarrow>
         (\<exists>card. create_model_card_metadata repo_name (JDict m) = Inr card
            \<and> card_field card ''language''
                = Some (JList [JStr (if s = ''xx'' then ''multilingual'' else s)])))"
proof -
  have field: "card_field c ''language''
      = Some (JList [JStr (if s = ''xx'' then ''multilingual'' else s)])"
    if ok: "create_model_card_metadata repo_name (JDict m) = Inr c" for c
  proof -
    from ok obtain l ls cv cs m2 perf idx where
      l: "map_of m ''lang'' = Some l" and
      ls: "(case map_of m ''license'' of None \<Rightarrow> JStr [] | Some v \<Rightarrow> v) = JStr ls" and
      cv: "map_of m ''components'' = Some cv" and
      cs: "py_iter cv = Inr cs" and
      m2: "insert_values_as_list [(''tags'', JList (map JStr (derive_tags cs)))]
          ''language'' (if l \<noteq> JStr ''xx'' then l else JStr ''multilingual'') = Inr m2" and
      perf: "map_of m ''performance'' = Some perf" and
      idx: "create_model_index repo_name perf = Inr idx" and
      md: "card_field c =
         ((if ls = [] then map_of m2 else (map_of m2)(''license'' \<mapsto> JStr (replace_spaces ls)))
            (''model-index'' \<mapsto> idx))"
      by (rule card_field_metadata)
    from l assms have "l = JStr s" by simp
    with insert_language_Inr [OF m2]
    have "map_of m2 ''language'' = Some (JList [JStr (if s = ''xx'' then ''multilingual'' else s)])"
      by (simp split: if_splits)
    then show ?thesis
      by (simp add: md)
  qed
  show ?thesis
  proof (intro conjI impI)
    assume "create_model_card_metadata repo_name (JDict m) = Inr md"
    then show "card_field md ''language''
        = Some (JList [JStr (if s = ''xx'' then ''multilingual'' else s)])"
      by (rule field)
  next
    assume a: "(map_of m ''license'' = None \<or> (\<exists>t. map_of m ''license'' = Some (JStr t)))
          \<and> map_of m ''components'' = Some (JList cs)
          \<and> map_of m ''performance'' = Some (JDict d) \<and> groups_complete d"
    have "\<exists>card. create_model_card_metadata repo_name (JDict m) = Inr card"
      using a by (intro card_produced [OF assms, of cs d]) (simp_all add: is_str_def)
    then obtain card where c: "create_model_card_metadata repo_name (JDict m) = Inr card" ..
    with field [OF c]
    show "\<exists>card. create_model_card_metadata repo_name (JDict m) = Inr card
            \<and> card_field card ''language''
                = Some (JList [JStr (if s = ''xx'' then ''multilingual'' else s)])"
      by blast
  qed
qed

theorem language_field_witness:
  "create_model_card_metadata ''m''
       (JDict [(''lang'', JStr ''xx''), (''components'', JList []), (''performance'', JDict [])])
     = Inr (JDict
         [(''tags'', JList [JStr ''spacy'']),
          (''language'', JList [JStr ''multilingual'']),
          (''model-index'', JDict [(''name'', JStr ''m''), (''results'', JList [] :: real json)])])
   \<and> card_field (JDict
         [(''tags'', JList [JStr ''spacy'']),
          (''language'', JList [JStr ''multilingual'']),
          (''model-index'', JDict [(''name'', JStr ''m''), (''results'', JList [] :: real json)])])
      ''language'' = Some (JList [JStr ''multilingual''])
   \<and> (\<exists>card. create_model_card_metadata ''m''
       (JDict [(''lang'', JStr ''en''), (''components'', JList []),
               (''performance'', JDict [(''tag_acc'', JNum (95/100 :: real))])]) = Inr card
      \<and> card_field card ''language'' = Some (JList [JStr ''en'']))
   \<and> (\<exists>card. create_model_card_metadata ''m''
       (JDict [(''lang'', JStr ''xx''), (''components'', JList []),
               (''performance'', JDict [(''tag_acc'', JNum (95/100 :: real))])]) = Inr card
      \<and> card_field card ''language'' = Some (JList [JStr ''multilingual'']))"
proof -
  have h1: "map_of [(''lang'', JStr ''en''), (''components'', JList []),
             (''performance'', JDict [(''tag_acc'', JNum (95/100 :: real))])] ''lang'' = Some (JStr ''en'')"
    by simp
  have h2: "(map_of [(''lang'', JStr ''en''), (''components'', JList []),
             (''performance'', JDict [(''tag_acc'', JNum (95/100 :: real))])] ''license'' = None
       \<or> (\<exists>t. map_of [(''lang'', JStr ''en''), (''components'', JList []),
             (''performance'', JDict [(''tag_acc'', JNum (95/100 :: real))])] ''license'' = Some (JStr t)))
     \<and> map_of [(''lang'', JStr ''en''), (''components'', JList []),
             (''performance'', JDict [(''tag_acc'', JNum (95/100 :: real))])] ''components'' = Some (JList [])
     \<and> map_of [(''lang'', JStr ''en''), (''components'', JList []),
             (''performance'', JDict [(''tag_acc'', JNum (95/100 :: real))])] ''performance''
         = Some (JDict [(''tag_acc'', JNum (95/100))])
     \<and> groups_complete [(''tag_acc'', JNum (95/100 :: real))]"
    by (simp add: groups_complete_def)
  have h3: "create_model_card_metadata ''m''
     (JDict [(''lang'', JStr ''xx''), (''components'', JList []), (''performance'', JDict [])])
     = Inr (JDict
         [(''tags'', JList [JStr ''spacy'']),
          (''language'', JList [JStr ''multilingual'']),
          (''model-index'', JDict [(''name'', JStr ''m''), (''results'', JList [] :: real json)])])"
    by (simp add: card_defs index_defs)
  have h4: "map_of [(''lang'', JStr ''xx''), (''components'', JList []),
             (''performance'', JDict [] :: real json)] ''lang'' = Some (JStr ''xx'')"
    by simp
  have h5: "map_of [(''lang'', JStr ''xx''), (''components'', JList []),
             (''performance'', JDict [(''tag_acc'', JNum (95/100 :: real))])] ''lang'' = Some (JStr ''xx'')"
    by simp
  have h6: "(map_of [(''lang'', JStr ''xx''), (''components'', JList []),
             (''performance'', JDict [(''tag_acc'', JNum (95/100 :: real))])] ''license'' = None
       \<or> (\<exists>t. map_of [(''lang'', JStr ''xx''), (''components'', JList []),
             (''performance'', JDict [(''tag_acc'', JNum (95/100 :: real))])] ''license'' = Some (JStr t)))
     \<and> map_of [(''lang'', JStr ''xx''), (''components'', JList []),
             (''performance'', JDict [(''tag_acc'', JNum (95/100 :: real))])] ''components'' = Some (JList [])
     \<and> map_of [(''lang'', JStr ''xx''), (''components'', JList []),
             (''performance'', JDict [(''tag_acc'', JNum (95/100 :: real))])] ''performance''
         = Some (JDict [(''tag_acc'', JNum (95/100))])
     \<and> groups_complete [(''tag_acc'', JNum (95/100 :: real))]"
    by (simp add: groups_complete_def)
  from language_field [OF h4, of "''m''", THEN conjunct1, THEN mp, OF h3]
  have c1: "card_field (JDict
         [(''tags'', JList [JStr ''spacy'']),
          (''language'', JList [JStr ''multilingual'']),
          (''model-index'', JDict [(''name'', JStr ''m''), (''results'', JList [] :: real json)])])
      ''language'' = Some (JList [JStr ''multilingual''])"
    by simp
  from language_field [OF h1, of "''m''", THEN conjunct2, THEN mp, OF h2]
  have c2: "\<exists>card. create_model_card_metadata ''m''
       (JDict [(''lang'', JStr ''en''), (''components'', JList []),
               (''performance'', JDict [(''tag_acc'', JNum (95/100 :: real))])]) = Inr card
      \<and> card_field card ''language'' = Some (JList [JStr ''en''])"
    by simp
  from language_field [OF h5, of "''m''", THEN conjunct2, THEN mp, OF h6]
  have c3: "\<exists>card. create_model_card_metadata ''m''
       (JDict [(''lang'', JStr ''xx''), (''components'', JList []),
               (''performance'', JDict [(''tag_acc'', JNum (95/100 :: real))])]) = Inr card
      \<and> card_field card ''language'' = Some (JList [JStr ''multilingual''])"
    by simp
  from h3 c1 c2 c3 show ?thesis
    by (intro conjI)
qed

text \<open>The \<^verbatim>\<open>language\<close> field for a language value of any shape: outside the strings, a
  null value leaves the field out and a list or mapping is passed on as it is unless it is
  empty (a boolean or a number gives no card).\<close>

lemma language_field_shapes:
  assumes "create_model_card_metadata repo_name (JDict m) = Inr md"
    and "map_of m ''lang'' = Some v"
  shows "card_field md ''language'' =
     (case v of
        JNull \<Rightarrow> None
      | JStr s \<Rightarrow> Some (JList [JStr (if s = ''xx'' then ''multilingual'' else s)])
      | JList xs \<Rightarrow> if xs = [] then None else Some v
      | JDict kvs \<Rightarrow> if kvs = [] then None else Some v
      | _ \<Rightarrow> None)"
proof -
  from assms(1) obtain l ls cv cs m2 perf idx where
    l: "map_of m ''lang'' = Some l" and
    ls: "(case map_of m ''license'' of None \<Rightarrow> JStr [] | Some v \<Rightarrow> v) = JStr ls" and
    cv: "map_of m ''components'' = Some cv" and
    cs: "py_iter cv = Inr cs" and
    m2: "insert_values_as_list [(''tags'', JList (map JStr (derive_tags cs)))]
        ''language'' (if l \<noteq> JStr ''xx'' then l else JStr ''multilingual'') = Inr m2" and
    perf: "map_of m ''performance'' = Some perf" and
    idx: "create_model_index repo_name perf = Inr idx" and
    md: "card_field md =
       ((if ls = [] then map_of m2 else (map_of m2)(''license'' \<mapsto> JStr (replace_spaces ls)))
          (''model-index'' \<mapsto> idx))"
    by (rule card_field_metadata)
  from l assms(2) have "l = v" by simp
  with insert_language_Inr [OF m2]
  have "map_of m2 ''language'' =
     (case v of
        JNull \<Rightarrow> None
      | JStr s \<Rightarrow> Some (JList [JStr (if s = ''xx'' then ''multilingual'' else s)])
      | JList xs \<Rightarrow> if xs = [] then None else Some v
      | JDict kvs \<Rightarrow> if kvs = [] then None else Some v
      | _ \<Rightarrow> None)"
    by (cases v) (simp_all split: if_splits)
  then show ?thesis
    by (simp add: md)
qed

lemma card_license_value:
  assumes "create_model_card_metadata repo_name (JDict m) = Inr md"
  shows "\<exists>ls. (case map_of m ''license'' of None \<Rightarrow> JStr [] | Some v \<Rightarrow> v) = JStr ls
     \<and> card_field md ''license'' = (if ls = [] then None else Some (JStr (replace_spaces ls)))"
proof -
  from assms obtain l ls cv cs m2 perf idx where
    l: "map_of m ''lang'' = Some l" and
    ls: "(case map_of m ''license'' of None \<Rightarrow> JStr [] | Some v \<Rightarrow> v) = JStr ls" and
    cv: "map_of m ''components'' = Some cv" and
    cs: "py_iter cv = Inr cs" and
    m2: "insert_values_as_list [(''tags'', JList (map JStr (derive_tags cs)))]
        ''language'' (if l \<noteq> JStr ''xx'' then l else JStr ''multilingual'') = Inr m2" and
    perf: "map_of m ''performance'' = Some perf" and
    idx: "create_model_index repo_name perf = Inr idx" and
    md: "card_field md =
       ((if ls = [] then map_of m2 else (map_of m2)(''license'' \<mapsto> JStr (replace_spaces ls)))
          (''model-index'' \<mapsto> idx))"
    by (rule card_field_metadata)
  have no: "map_of m2 ''license'' = None"
    using insert_language_Inr [OF m2]
    by (simp split: json.splits if_splits)
  have "card_field md ''license'' = (if ls = [] then None else Some (JStr (replace_spaces ls)))"
    by (simp add: md no)
  with ls show ?thesis by blast
qed

text \<open>
  C6. For every manifest: whenever a card is produced, the license of the manifest is
  absent or a string; the \<^verbatim>\<open>license\<close> field of the card is present exactly when the
  manifest has a license that is a non-empty string, and then its value is that string
  with every space character replaced by a hyphen and every other character kept; with
  the key absent or its value the empty string the field is omitted. A card is produced,
  with that field, whenever the language code and the license are strings where present,
  the three required keys are there, the components are a list and the performance value
  is a mapping whose present groups are complete.
\<close>

theorem license_field:
  "(create_model_card_metadata repo_name (JDict m) = Inr md \<longrightarrow>
      (map_of m ''license'' = None \<or> (\<exists>s. map_of m ''license'' = Some (JStr s)))
      \<and> card_field md ''license'' =
          (case map_of m ''license'' of
             Some (JStr s) \<Rightarrow>
               if s = [] then None
               else Some (JStr (map (\<lambda>c. if c = CHR '' '' then CHR ''-'' else c) s))
           | _ \<Rightarrow> None)
      \<and> (card_field md ''license'' \<noteq> None) =
          (\<exists>s. map_of m ''license'' = Some (JStr s) \<and> s \<noteq> []))
   \<and> (manifest_typed m \<and> first_missing_key m = None
        \<and> map_of m ''performance'' = Some (JDict d) \<and> groups_complete d \<longrightarrow>
       (\<exists>card. create_model_card_metadata repo_name (JDict m) = Inr card
          \<and> card_field card ''license'' =
              (case map_of m ''license'' of
                 Some (JStr s) \<Rightarrow>
                   if s = [] then None
                   else Some (JStr (map (\<lambda>c. if c = CHR '' '' then CHR ''-'' else c) s))
               | _ \<Rightarrow> None)))"
proof -
  have field: "(map_of m ''license'' = None \<or> (\<exists>s. map_of m ''license'' = Some (JStr s)))
      \<and> card_field c ''license'' =
          (case map_of m ''license'' of
             Some (JStr s) \<Rightarrow>
               if s = [] then None
               else Some (JStr (map (\<lambda>c. if c = CHR '' '' then CHR ''-'' else c) s))
           | _ \<Rightarrow> None)
      \<and> (card_field c ''license'' \<noteq> None) =
          (\<exists>s. map_of m ''license'' = Some (JStr s) \<and> s \<noteq> [])"
    if ok: "create_model_card_metadata repo_name (JDict m) = Inr c" for c
  proof -
    from card_license_value [OF ok] obtain ls where
      ls: "(case map_of m ''license'' of None \<Rightarrow> JStr [] | Some v \<Rightarrow> v) = JStr ls" and
      lic: "card_field c ''license'' = (if ls = [] then None else Some (JStr (replace_spaces ls)))"
      by blast
    from ls show ?thesis
      unfolding lic replace_spaces_def by (auto split: option.splits json.splits)
  qed
  show ?thesis
  proof (intro conjI impI)
    assume ok: "create_model_card_metadata repo_name (JDict m) = Inr md"
    from field [OF ok]
    show "map_of m ''license'' = None \<or> (\<exists>s. map_of m ''license'' = Some (JStr s))"
      and "card_field md ''license'' =
          (case map_of m ''license'' of
             Some (JStr s) \<Rightarrow>
               if s = [] then None
               else Some (JStr (map (\<lambda>c. if c = CHR '' '' then CHR ''-'' else c) s))
           | _ \<Rightarrow> None)"
      and "(card_field md ''license'' \<noteq> None) =
          (\<exists>s. map_of m ''license'' = Some (JStr s) \<and> s \<noteq> [])"
      by blast+
  next
    assume a: "manifest_typed m \<and> first_missing_key m = None
        \<and> map_of m ''performance'' = Some (JDict d) \<and> groups_complete d"
    then obtain l cs where l: "map_of m ''lang'' = Some l" "is_str l"
      and cs: "map_of m ''components'' = Some (JList cs)"
      and lic: "map_of m ''license'' = None \<or> (\<exists>t. map_of m ''license'' = Some (JStr t))"
      by (auto simp: manifest_typed_def first_missing_key_def is_str_def is_list_def
          split: if_splits option.splits json.splits)
    from a have "\<exists>card. create_model_card_metadata repo_name (JDict m) = Inr card"
      using card_produced [OF l(1) _ lic cs, of d repo_name] l(2) by blast
    then obtain card where c: "create_model_card_metadata repo_name (JDict m) = Inr card" ..
    with field [OF c]
    show "\<exists>card. create_model_card_metadata repo_name (JDict m) = Inr card
          \<and> card_field card ''license'' =
              (case map_of m ''license'' of
                 Some (JStr s) \<Rightarrow>
                   if s = [] then None
                   else Some (JStr (map (\<lambda>c. if c = CHR '' '' then CHR ''-'' else c) s))
               | _ \<Rightarrow> None)"
      by blast
  qed
qed

theorem license_field_witness:
  "create_model_card_metadata ''m''
       (JDict [(''lang'', JStr ''en''), (''license'', JStr ''MIT License''),
               (''components'', JList [JStr ''ner'']), (''performance'', JDict [])])
     = Inr (JDict
         [(''tags'', JList [JStr ''spacy'', JStr ''token-classification'']),
          (''language'', JList [JStr ''en'']),
          (''license'', JStr ''MIT-License''),
          (''model-index'', JDict [(''name'', JStr ''m''), (''results'', JList [] :: real json)])])
   \<and> card_field (JDict
         [(''tags'', JList [JStr ''spacy'', JStr ''token-classification'']),
          (''language'', JList [JStr ''en'']),
          (''license'', JStr ''MIT-License''),
          (''model-index'', JDict [(''name'', JStr ''m''), (''results'', JList [] :: real json)])])
      ''license'' = Some (JStr ''MIT-License'')
   \<and> (\<exists>card. create_model_card_metadata ''m''
       (JDict [(''lang'', JStr ''en''), (''components'', JList [JStr ''ner'']),
               (''performance'', JDict [] :: real json)])
       = Inr card
      \<and> card_field card ''license'' = None)
   \<and> (\<exists>card. create_model_card_metadata ''m''
       (JDict [(''lang'', JStr ''en''), (''license'', JStr ''Apache License 2.0''),
               (''components'', JList [JStr ''ner'']), (''performance'', JDict [] :: real json)])
       = Inr card
      \<and> card_field card ''license'' = Some (JStr ''Apache-License-2.0''))"
proof -
  have h1: "manifest_typed [(''lang'', JStr ''en''), (''components'', JList [JStr ''ner'']),
               (''performance'', JDict [] :: real json)]
     \<and> first_missing_key [(''lang'', JStr ''en''), (''components'', JList [JStr ''ner'']),
               (''performance'', JDict [] :: real json)] = None
     \<and> map_of [(''lang'', JStr ''en''), (''components'', JList [JStr ''ner'']),
               (''performance'', JDict [] :: real json)]
          ''performance'' = Some (JDict [])
     \<and> groups_complete ([] :: (string \<times> real json) list)"
    by (simp add: manifest_typed_def is_str_def is_list_def first_missing_key_def groups_complete_def)
  have h2: "create_model_card_metadata ''m''
       (JDict [(''lang'', JStr ''en''), (''license'', JStr ''MIT License''),
               (''components'', JList [JStr ''ner'']), (''performance'', JDict [])])
     = Inr (JDict
         [(''tags'', JList [JStr ''spacy'', JStr ''token-classification'']),
          (''language'', JList [JStr ''en'']),
          (''license'', JStr ''MIT-License''),
          (''model-index'', JDict [(''name'', JStr ''m''), (''results'', JList [] :: real json)])])"
    by (simp add: card_defs index_defs)
  have h3: "manifest_typed [(''lang'', JStr ''en''), (''license'', JStr ''Apache License 2.0''),
               (''components'', JList [JStr ''ner'']), (''performance'', JDict [] :: real json)]
     \<and> first_missing_key [(''lang'', JStr ''en''), (''license'', JStr ''Apache License 2.0''),
               (''components'', JList [JStr ''ner'']), (''performance'', JDict [] :: real json)] = None
     \<and> map_of [(''lang'', JStr ''en''), (''license'', JStr ''Apache License 2.0''),
               (''components'', JList [JStr ''ner'']), (''performance'', JDict [] :: real json)]
          ''performance'' = Some (JDict [])
     \<and> groups_complete ([] :: (string \<times> real json) list)"
    by (simp add: manifest_typed_def is_str_def is_list_def first_missing_key_def groups_complete_def)
  from license_field [of "''m''", THEN conjunct1, THEN mp, OF h2]
  have c1: "card_field (JDict
         [(''tags'', JList [JStr ''spacy'', JStr ''token-classification'']),
          (''language'', JList [JStr ''en'']),
          (''license'', JStr ''MIT-License''),
          (''model-index'', JDict [(''name'', JStr ''m''), (''results'', JList [] :: real json)])])
      ''license'' = Some (JStr ''MIT-License'')"
    by simp
  from license_field [of "''m''" _ _ "[]", THEN conjunct2, THEN mp, OF h1]
  have c2: "\<exists>card. create_model_card_metadata ''m''
       (JDict [(''lang'', JStr ''en''), (''components'', JList [JStr ''ner'']),
               (''performance'', JDict [] :: real json)])
       = Inr card
      \<and> card_field card ''license'' = None"
    by simp
  from license_field [of "''m''" _ _ "[]", THEN conjunct2, THEN mp, OF h3]
  have c3: "\<exists>card. create_model_card_metadata ''m''
       (JDict [(''lang'', JStr ''en''), (''license'', JStr ''Apache License 2.0''),
               (''components'', JList [JStr ''ner'']), (''performance'', JDict [] :: real json)])
       = Inr card
      \<and> card_field card ''license'' = Some (JStr ''Apache-License-2.0'')"
    by simp
  from h2 c1 c2 c3 show ?thesis
    by (intro conjI)
qed

lemma language_step_fields:
  assumes "insert_values_as_list [(''tags'', JList (map JStr (derive_tags cs)))] ''language'' l = Inr m2"
    and "map_of m2 k = Some v"
  shows "k \<in> {''tags'', ''language''} \<and> v \<noteq> JNull \<and> v \<noteq> JStr [] \<and> v \<noteq> JList []"
  using insert_language_Inr [OF assms(1)] assms(2) derive_tags_not_Nil [of cs]
  by (cases l) (auto split: if_splits)

lemma language_step_omits:
  assumes "insert_values_as_list [(''tags'', T)] ''language'' l = Inr m2"
    and "l = JNull \<or> l = JList []"
  shows "map_of m2 ''language'' = None"
  using insert_language_Inr [OF assms(1)] assms(2) by auto

lemma create_model_index_shape:
  assumes "create_model_index repo_name data = Inr idx"
  shows "\<exists>rs. idx = JDict [(''name'', JStr repo_name), (''results'', JList rs)]"
  using assms unfolding create_model_index_def and_then_eq_Inr by blast

text \<open>
  C3, as the code has it. For every manifest: whenever a card is produced, every
  top-level field other than \<^verbatim>\<open>model-index\<close> is one of \<^verbatim>\<open>tags\<close>, \<^verbatim>\<open>language\<close> and
  \<^verbatim>\<open>license\<close>, and its value is never null, the empty string or the empty list; the
  \<^verbatim>\<open>license\<close> field is omitted when the license of the manifest is absent or the empty
  string; the \<^verbatim>\<open>language\<close> field is omitted when the language value is null or the empty
  list; the \<^verbatim>\<open>tags\<close> field is there and starts with the base tag. The \<^verbatim>\<open>model-index\<close>
  field is always there, with its name and its results list, and the results list is
  written as the empty list when the performance mapping has no metric group. A card is
  produced whenever the language value is null, a string or a list, the license is absent
  or a string, the components are a list and the performance value is a mapping whose
  present groups are complete.
\<close>

theorem card_fields_omitted:
  "(create_model_card_metadata repo_name (JDict m) = Inr md \<longrightarrow>
      (card_field md k = Some v \<and> k \<noteq> ''model-index'' \<longrightarrow>
         k \<in> {''tags'', ''language'', ''license''} \<and> v \<noteq> JNull \<and> v \<noteq> JStr [] \<and> v \<noteq> JList [])
      \<and> (map_of m ''license'' = None \<or> map_of m ''license'' = Some (JStr []) \<longrightarrow>
           card_field md ''license'' = None)
      \<and> (map_of m ''lang'' = Some JNull \<or> map_of m ''lang'' = Some (JList []) \<longrightarrow>
           card_field md ''language'' = None)
      \<and> (\<exists>ts. card_field md ''tags'' = Some (JList (JStr ''spacy'' # ts)))
      \<and> (\<exists>rs. card_field md ''model-index''
             = Some (JDict [(''name'', JStr repo_name), (''results'', JList rs)]))
      \<and> (map_of m ''performance'' = Some (JDict d) \<and> present_group_names d = [] \<longrightarrow>
           card_field md ''model-index''
             = Some (JDict [(''name'', JStr repo_name), (''results'', JList [])])))
   \<and> ((\<exists>l. map_of m ''lang'' = Some l \<and> (l = JNull \<or> is_str l \<or> is_list l))
        \<and> (map_of m ''license'' = None \<or> (\<exists>t. map_of m ''license'' = Some (JStr t)))
        \<and> map_of m ''components'' = Some (JList cs)
        \<and> map_of m ''performance'' = Some (JDict d) \<and> groups_complete d \<longrightarrow>
       (\<exists>card. create_model_card_metadata repo_name (JDict m) = Inr card))"
proof -
  have produced: "(\<exists>l. map_of m ''lang'' = Some l \<and> (l = JNull \<or> is_str l \<or> is_list l))
        \<and> (map_of m ''license'' = None \<or> (\<exists>t. map_of m ''license'' = Some (JStr t)))
        \<and> map_of m ''components'' = Some (JList cs)
        \<and> map_of m ''performance'' = Some (JDict d) \<and> groups_complete d \<longrightarrow>
       (\<exists>card. create_model_card_metadata repo_name (JDict m) = Inr card)"
  proof
    assume a: "(\<exists>l. map_of m ''lang'' = Some l \<and> (l = JNull \<or> is_str l \<or> is_list l))
        \<and> (map_of m ''license'' = None \<or> (\<exists>t. map_of m ''license'' = Some (JStr t)))
        \<and> map_of m ''components'' = Some (JList cs)
        \<and> map_of m ''performance'' = Some (JDict d) \<and> groups_complete d"
    then obtain l where "map_of m ''lang'' = Some l" "l = JNull \<or> is_str l \<or> is_list l"
      by blast
    with a show "\<exists>card. create_model_card_metadata repo_name (JDict m) = Inr card"
      using card_produced [of m l cs d repo_name] by blast
  qed
  have fields: "(card_field md k = Some v \<and> k \<noteq> ''model-index'' \<longrightarrow>
         k \<in> {''tags'', ''language'', ''license''} \<and> v \<noteq> JNull \<and> v \<noteq> JStr [] \<and> v \<noteq> JList [])
      \<and> (map_of m ''license'' = None \<or> map_of m ''license'' = Some (JStr []) \<longrightarrow>
           card_field md ''license'' = None)
      \<and> (map_of m ''lang'' = Some JNull \<or> map_of m ''lang'' = Some (JList []) \<longrightarrow>
           card_field md ''language'' = None)
      \<and> (\<exists>ts. card_field md ''tags'' = Some (JList (JStr ''spacy'' # ts)))
      \<and> (\<exists>rs. card_field md ''model-index''
             = Some (JDict [(''name'', JStr repo_name), (''results'', JList rs)]))
      \<and> (map_of m ''performance'' = Some (JDict d) \<and> present_group_names d = [] \<longrightarrow>
           card_field md ''model-index''
             = Some (JDict [(''name'', JStr repo_name), (''results'', JList [])]))"
    if ok: "create_model_card_metadata repo_name (JDict m) = Inr md"
  proof -
    from ok obtain l ls cv cs' m2 perf idx where
      l: "map_of m ''lang'' = Some l" and
      ls: "(case map_of m ''license'' of None \<Rightarrow> JStr [] | Some v \<Rightarrow> v) = JStr ls" and
      cv: "map_of m ''components'' = Some cv" and
      cs: "py_iter cv = Inr cs'" and
      m2: "insert_values_as_list [(''tags'', JList (map JStr (derive_tags cs')))]
          ''language'' (if l \<noteq> JStr ''xx'' then l else JStr ''multilingual'') = Inr m2" and
      perf: "map_of m ''performance'' = Some perf" and
      idx: "create_model_index repo_name perf = Inr idx" and
      md: "card_field md =
         ((if ls = [] then map_of m2 else (map_of m2)(''license'' \<mapsto> JStr (replace_spaces ls)))
            (''model-index'' \<mapsto> idx))"
      by (rule card_field_metadata)
    have p1: "k \<in> {''tags'', ''language'', ''license''} \<and> v \<noteq> JNull \<and> v \<noteq> JStr [] \<and> v \<noteq> JList []"
      if "card_field md k = Some v" "k \<noteq> ''model-index''"
    proof (cases "k = ''license'' \<and> ls \<noteq> []")
      case True
      with that show ?thesis
        by (auto simp: md replace_spaces_Nil_iff)
    next
      case False
      with that have "map_of m2 k = Some v"
        by (auto simp: md split: if_splits)
      from language_step_fields [OF m2 this] show ?thesis
        by blast
    qed
    have no: "map_of m2 ''license'' = None"
      using language_step_fields [OF m2, of "''license''"]
      by (cases "map_of m2 ''license''") auto
    have p2: "card_field md ''license'' = None"
      if "map_of m ''license'' = None \<or> map_of m ''license'' = Some (JStr [])"
      using that ls by (auto simp: md no)
    have p3: "card_field md ''language'' = None"
      if "map_of m ''lang'' = Some JNull \<or> map_of m ''lang'' = Some (JList [])"
    proof -
      from that l have "l = JNull \<or> l = JList []" by auto
      then have "map_of m2 ''language'' = None"
        using language_step_omits [OF m2] by auto
      then show ?thesis by (simp add: md)
    qed
    from card_tags [OF ok] obtain cv'' cs'' where
      "map_of m ''components'' = Some cv''" "py_iter cv'' = Inr cs''"
      "card_field md ''tags'' = Some (JList (map JStr (derive_tags cs'')))"
      by blast
    then have p4: "\<exists>ts. card_field md ''tags'' = Some (JList (JStr ''spacy'' # ts))"
      by (simp add: derive_tags_eq)
    from create_model_index_shape [OF idx] obtain rs where
      rs: "idx = JDict [(''name'', JStr repo_name), (''results'', JList rs)]" ..
    then have p5: "\<exists>rs. card_field md ''model-index''
              = Some (JDict [(''name'', JStr repo_name), (''results'', JList rs)])"
      by (simp add: md)
    have p6: "card_field md ''model-index''
                = Some (JDict [(''name'', JStr repo_name), (''results'', JList [])])"
      if "map_of m ''performance'' = Some (JDict d)" "present_group_names d = []"
      using that perf idx create_model_index_no_groups [of d repo_name]
      by (simp add: md)
    from p1 p2 p3 p4 p5 p6 show ?thesis
      by (intro conjI impI) blast+
  qed
  from fields produced show ?thesis
    by (intro conjI impI) blast+
qed

theorem card_fields_omitted_witness:
  "(\<exists>card. create_model_card_metadata ''m''
       (JDict [(''lang'', JNull), (''license'', JStr []), (''components'', JList []),
               (''performance'', JDict [] :: real json)]) = Inr card
      \<and> card_field card ''license'' = None
      \<and> card_field card ''language'' = None
      \<and> card_field card ''model-index''
           = Some (JDict [(''name'', JStr ''m''), (''results'', JList [])])
      \<and> (\<exists>ts. card_field card ''tags'' = Some (JList (JStr ''spacy'' # ts))))
   \<and> create_model_card_metadata ''m''
       (JDict [(''lang'', JNull), (''license'', JStr []), (''components'', JList []),
               (''performance'', JDict [])])
     = Inr (JDict
         [(''tags'', JList [JStr ''spacy'']),
          (''model-index'', JDict [(''name'', JStr ''m''), (''results'', JList [] :: real json)])])
   \<and> JList [JStr ''spacy'' :: real json] \<noteq> JList []"
proof -
  have h0: "(\<exists>l. map_of [(''lang'', JNull), (''license'', JStr []), (''components'', JList []),
               (''performance'', JDict [] :: real json)] ''lang'' = Some l
          \<and> (l = JNull \<or> is_str l \<or> is_list l))
     \<and> (map_of [(''lang'', JNull), (''license'', JStr []), (''components'', JList []),
               (''performance'', JDict [] :: real json)] ''license'' = None
        \<or> (\<exists>t. map_of [(''lang'', JNull), (''license'', JStr []), (''components'', JList []),
               (''performance'', JDict [] :: real json)] ''license'' = Some (JStr t)))
     \<and> map_of [(''lang'', JNull), (''license'', JStr []), (''components'', JList []),
               (''performance'', JDict [] :: real json)] ''components'' = Some (JList [])
     \<and> map_of [(''lang'', JNull), (''license'', JStr []), (''components'', JList []),
               (''performance'', JDict [] :: real json)] ''performance'' = Some (JDict [])
     \<and> groups_complete ([] :: (string \<times> real json) list)"
    by (simp add: groups_complete_def)
  have h1: "create_model_card_metadata ''m''
     (JDict [(''lang'', JNull), (''license'', JStr []), (''components'', JList []),
             (''performance'', JDict [])])
     = Inr (JDict
         [(''tags'', JList [JStr ''spacy'']),
          (''model-index'', JDict [(''name'', JStr ''m''), (''results'', JList [] :: real json)])])"
    by (simp add: card_defs index_defs)
  have h2: "card_field (JDict
         [(''tags'', JList [JStr ''spacy'']),
          (''model-index'', JDict [(''name'', JStr ''m''), (''results'', JList [] :: real json)])])
      ''tags'' = Some (JList [JStr ''spacy'']) \<and> ''tags'' \<noteq> ''model-index''"
    by (simp add: card_field_def)
  have h3: "map_of [(''lang'', JNull), (''license'', JStr []), (''components'', JList []),
             (''performance'', JDict [] :: real json)] ''license'' = None
       \<or> map_of [(''lang'', JNull), (''license'', JStr []), (''components'', JList []),
             (''performance'', JDict [] :: real json)] ''license'' = Some (JStr [])"
    by simp
  have h4: "map_of [(''lang'', JNull), (''license'', JStr []), (''components'', JList []),
             (''performance'', JDict [] :: real json)] ''lang'' = Some JNull
       \<or> map_of [(''lang'', JNull), (''license'', JStr []), (''components'', JList []),
             (''performance'', JDict [] :: real json)] ''lang'' = Some (JList [])"
    by simp
  have h5: "map_of [(''lang'', JNull), (''license'', JStr []), (''components'', JList []),
             (''performance'', JDict [] :: real json)] ''performance'' = Some (JDict [])
       \<and> present_group_names ([] :: (string \<times> real json) list) = []"
    by (simp add: present_group_names_def metric_groups_def)
  from card_fields_omitted [of "''m''" _ _ _ _ "[]" "[]", THEN conjunct2, THEN mp, OF h0]
  obtain card where card: "create_model_card_metadata ''m''
       (JDict [(''lang'', JNull), (''license'', JStr []), (''components'', JList []),
               (''performance'', JDict [] :: real json)]) = Inr card" ..
  note t = card_fields_omitted [of "''m''" _ card _ _ "[]", THEN conjunct1, THEN mp, OF card]
  note c2 = t [THEN conjunct2, THEN conjunct1, THEN mp, OF h3]
  note c3 = t [THEN conjunct2, THEN conjunct2, THEN conjunct1, THEN mp, OF h4]
  note c4 = t [THEN conjunct2, THEN conjunct2, THEN conjunct2, THEN conjunct1]
  note c5 = t [THEN conjunct2, THEN conjunct2, THEN conjunct2, THEN conjunct2, THEN conjunct2,
    THEN mp, OF h5]
  from card c2 c3 c5 c4 have first: "\<exists>card. create_model_card_metadata ''m''
       (JDict [(''lang'', JNull), (''license'', JStr []), (''components'', JList []),
               (''performance'', JDict [] :: real json)]) = Inr card
      \<and> card_field card ''license'' = None
      \<and> card_field card ''language'' = None
      \<and> card_field card ''model-index''
           = Some (JDict [(''name'', JStr ''m''), (''results'', JList [])])
      \<and> (\<exists>ts. card_field card ''tags'' = Some (JList (JStr ''spacy'' # ts)))"
    by blast
  note u = card_fields_omitted [of "''m''" _ _ "''tags''" "JList [JStr ''spacy'']",
    THEN conjunct1, THEN mp, OF h1]
  note c1 = u [THEN conjunct1, THEN mp, OF h2, THEN conjunct2, THEN conjunct2, THEN conjunct2]
  from first h1 c1 show ?thesis
    by (intro conjI)
qed

text \<open>
  C3 as the claim words it has the results field omitted when there is no metric group.
  A manifest with an empty performance mapping gets a card whose \<^verbatim>\<open>model-index\<close> holds
  \<^verbatim>\<open>results\<close> with the empty list as its value.
\<close>

theorem results_placeholder_counterexample:
  "create_model_card_metadata ''m''
     (JDict [(''lang'', JStr ''en''), (''components'', JList []), (''performance'', JDict [])])
     = Inr (JDict
         [(''tags'', JList [JStr ''spacy'']),
          (''language'', JList [JStr ''en'']),
          (''model-index'', JDict [(''name'', JStr ''m''), (''results'', JList [] :: real json)])])
   \<and> card_field (JDict [(''name'', JStr ''m''), (''results'', JList [] :: real json)]) ''results''
       = Some (JList [])"
  by (simp add: card_defs index_defs card_field_def)

section \<open>The claims about failure and about the description document\<close>

lemma typed_missing_key:
  assumes "manifest_typed m" and "first_missing_key m = Some k"
  shows "create_model_card_metadata repo_name (JDict m) = Inl (KeyError k)"
proof -
  consider (lang) "map_of m ''lang'' = None" "k = ''lang''"
    | (components) "map_of m ''lang'' \<noteq> None" "map_of m ''components'' = None" "k = ''components''"
    | (performance) "map_of m ''lang'' \<noteq> None" "map_of m ''components'' \<noteq> None"
        "map_of m ''performance'' = None" "k = ''performance''"
    using assms(2) by (auto simp: first_missing_key_def split: if_splits)
  then show ?thesis
  proof cases
    case lang
    then show ?thesis
      by (simp add: create_model_card_metadata_dict)
  next
    case components
    with assms(1) show ?thesis
      by (auto simp: create_model_card_metadata_dict manifest_typed_def is_str_def
          split: option.splits json.splits)
  next
    case performance
    with assms(1) show ?thesis
      by (auto simp: create_model_card_metadata_dict manifest_typed_def is_str_def is_list_def
          insert_values_as_list_def split: option.splits json.splits)
  qed
qed

lemma typed_complete_succeeds:
  assumes "manifest_typed m" and "first_missing_key m = None"
    and "map_of m ''performance'' = Some (JDict d)" and "groups_complete d"
  shows "\<exists>md. create_model_card_metadata repo_name (JDict m) = Inr md"
proof -
  from assms(4) obtain idx where "create_model_index repo_name (JDict d) = Inr idx"
    using create_model_index_total [of repo_name d] by blast
  moreover from assms(2) have "map_of m ''lang'' \<noteq> None" "map_of m ''components'' \<noteq> None"
    by (auto simp: first_missing_key_def split: if_splits)
  ultimately show ?thesis
    using assms(1,3)
    by (auto simp: create_model_card_metadata_dict manifest_typed_def is_str_def is_list_def
        insert_values_as_list_def split: option.splits json.splits)
qed

text \<open>
  C8. For every manifest that lacks one of the keys \<^verbatim>\<open>lang\<close>, \<^verbatim>\<open>components\<close> and
  \<^verbatim>\<open>performance\<close>, no card is produced. When the values of the manifest have the shape of
  the data model, the failure is the KeyError for the first of these keys that is missing,
  and it is also the outcome of the whole card creation, which does not touch the
  document. A manifest of that shape with the three keys and a performance mapping whose
  groups are complete gets a card also when it has no \<^verbatim>\<open>license\<close> key; the card then has
  no \<^verbatim>\<open>license\<close> field.
\<close>

theorem missing_required_key:
  "(first_missing_key m \<noteq> None \<longrightarrow> (\<exists>e. create_model_card_metadata repo_name (JDict m) = Inl e))
   \<and> (manifest_typed m \<and> first_missing_key m = Some k \<longrightarrow>
        create_model_card_metadata repo_name (JDict m) = Inl (KeyError k)
        \<and> create_model_card yaml_dump repo_name (JDict m) readme_file = Inl (KeyError k))
   \<and> (manifest_typed m \<and> map_of m ''license'' = None \<and> first_missing_key m = None
        \<and> map_of m ''performance'' = Some (JDict d) \<and> groups_complete d \<longrightarrow>
        (\<exists>md. create_model_card_metadata repo_name (JDict m) = Inr md
           \<and> card_field md ''license'' = None))"
proof (intro conjI impI)
  assume missing: "first_missing_key m \<noteq> None"
  show "\<exists>e. create_model_card_metadata repo_name (JDict m) = Inl e"
  proof (cases "create_model_card_metadata repo_name (JDict m)")
    case (Inl e)
    then show ?thesis by blast
  next
    case (Inr md)
    then have "first_missing_key m = None"
      by (rule create_model_card_metadata_Inr) (simp add: first_missing_key_def)
    with missing show ?thesis by simp
  qed
next
  assume a: "manifest_typed m \<and> first_missing_key m = Some k"
  then show e: "create_model_card_metadata repo_name (JDict m) = Inl (KeyError k)"
    by (simp add: typed_missing_key)
  then show "create_model_card yaml_dump repo_name (JDict m) readme_file = Inl (KeyError k)"
    by (simp add: create_model_card_def)
next
  assume a: "manifest_typed m \<and> map_of m ''license'' = None \<and> first_missing_key m = None
        \<and> map_of m ''performance'' = Some (JDict d) \<and> groups_complete d"
  then obtain md where md: "create_model_card_metadata repo_name (JDict m) = Inr md"
    using typed_complete_succeeds [of m d repo_name] by blast
  from card_license_value [OF md] a have "card_field md ''license'' = None"
    by auto
  with md show "\<exists>md. create_model_card_metadata repo_name (JDict m) = Inr md
           \<and> card_field md ''license'' = None"
    by blast
qed

theorem missing_required_key_witness:
  "(\<exists>e. create_model_card_metadata ''m''
     (JDict [(''lang'', JStr ''en''), (''license'', JStr ''MIT''), (''performance'', JDict [] :: real json)])
     = Inl e)
   \<and> create_model_card_metadata ''m''
     (JDict [(''lang'', JStr ''en''), (''license'', JStr ''MIT''), (''performance'', JDict [] :: real json)])
     = Inl (KeyError ''components'')
   \<and> (\<exists>md. create_model_card_metadata ''m''
     (JDict [(''lang'', JStr ''en''), (''components'', JList [JStr ''ner'']),
             (''performance'', JDict [(''tag_acc'', JNum (95/100 :: real))])]) = Inr md
      \<and> card_field md ''license'' = None)"
proof -
  have h1: "manifest_typed [(''lang'', JStr ''en''), (''license'', JStr ''MIT''), (''performance'', JDict [] :: real json)]
     \<and> first_missing_key [(''lang'', JStr ''en''), (''license'', JStr ''MIT''), (''performance'', JDict [] :: real json)]
         = Some ''components''"
    by (simp add: manifest_typed_def is_str_def first_missing_key_def)
  have h2: "manifest_typed [(''lang'', JStr ''en''), (''components'', JList [JStr ''ner'']),
             (''performance'', JDict [(''tag_acc'', JNum (95/100 :: real))])]
     \<and> map_of [(''lang'', JStr ''en''), (''components'', JList [JStr ''ner'']),
             (''performance'', JDict [(''tag_acc'', JNum (95/100 :: real))])] ''license'' = None
     \<and> first_missing_key [(''lang'', JStr ''en''), (''components'', JList [JStr ''ner'']),
             (''performance'', JDict [(''tag_acc'', JNum (95/100 :: real))])] = None
     \<and> map_of [(''lang'', JStr ''en''), (''components'', JList [JStr ''ner'']),
             (''performance'', JDict [(''tag_acc'', JNum (95/100 :: real))])] ''performance''
         = Some (JDict [(''tag_acc'', JNum (95/100))])
     \<and> groups_complete [(''tag_acc'', JNum (95/100 :: real))]"
    by (simp add: manifest_typed_def is_str_def is_list_def first_missing_key_def groups_complete_def)
  note a = missing_required_key [of
      "[(''lang'', JStr ''en''), (''license'', JStr ''MIT''), (''performance'', JDict [] :: real json)]"
      "''m''" "''components''"]
  note b = missing_required_key [of
      "[(''lang'', JStr ''en''), (''components'', JList [JStr ''ner'']),
             (''performance'', JDict [(''tag_acc'', JNum (95/100 :: real))])]"
      "''m''" _ _ _ "[(''tag_acc'', JNum (95/100 :: real))]"]
  have h0: "first_missing_key [(''lang'', JStr ''en''), (''license'', JStr ''MIT''), (''performance'', JDict [] :: real json)]
      \<noteq> None"
    by (simp add: first_missing_key_def)
  note c0 = a [THEN conjunct1, THEN mp, OF h0]
  note c1 = a [THEN conjunct2, THEN conjunct1, THEN mp, OF h1, THEN conjunct1]
  note c2 = b [THEN conjunct2, THEN conjunct2, THEN mp, OF h2]
  from c0 c1 c2 show ?thesis
    by (intro conjI)
qed

text \<open>
  C9. For every manifest for which the metadata is built and for every previous text of
  the description document (none when the file does not exist): the text written is the
  line \<^verbatim>\<open>---\<close>, the serialised metadata, the line \<^verbatim>\<open>---\<close>, and then the previous text
  unchanged. Creating the card again on the written document puts a second block in front
  of the first one, so the document changes again.
\<close>

theorem rewritten_document:
  assumes "create_model_card_metadata repo_name data = Inr md"
  shows "create_model_card yaml_dump repo_name data readme_file
           = Inr (''---'' @ [CHR 0x0A] @ yaml_dump md @ ''---'' @ [CHR 0x0A]
                    @ (case readme_file of None \<Rightarrow> [] | Some text \<Rightarrow> text))
     \<and> (create_model_card yaml_dump repo_name data readme_file = Inr doc \<longrightarrow>
          create_model_card yaml_dump repo_name data (Some doc)
            = Inr (''---'' @ [CHR 0x0A] @ yaml_dump md @ ''---'' @ [CHR 0x0A] @ doc)
          \<and> ''---'' @ [CHR 0x0A] @ yaml_dump md @ ''---'' @ [CHR 0x0A] @ doc \<noteq> doc)"
  using assms by (simp add: create_model_card_def metadata_section_def)

theorem rewritten_document_witness:
  "create_model_card (\<lambda>j. ''tags: [spacy]'' @ [CHR 0x0A]) ''m''
     (JDict [(''lang'', JStr ''en''), (''components'', JList []), (''performance'', JDict [] :: real json)])
     None
     = Inr (''---'' @ [CHR 0x0A] @ ''tags: [spacy]'' @ [CHR 0x0A] @ ''---'' @ [CHR 0x0A])
   \<and> create_model_card (\<lambda>j. ''tags: [spacy]'' @ [CHR 0x0A]) ''m''
     (JDict [(''lang'', JStr ''en''), (''components'', JList []), (''performance'', JDict [] :: real json)])
     (Some (''---'' @ [CHR 0x0A] @ ''tags: [spacy]'' @ [CHR 0x0A] @ ''---'' @ [CHR 0x0A]))
     = Inr (''---'' @ [CHR 0x0A] @ ''tags: [spacy]'' @ [CHR 0x0A] @ ''---'' @ [CHR 0x0A]
            @ ''---'' @ [CHR 0x0A] @ ''tags: [spacy]'' @ [CHR 0x0A] @ ''---'' @ [CHR 0x0A])"
proof -
  have h1: "create_model_card_metadata ''m''
     (JDict [(''lang'', JStr ''en''), (''components'', JList []), (''performance'', JDict [])])
     = Inr (JDict
         [(''tags'', JList [JStr ''spacy'']),
          (''language'', JList [JStr ''en'']),
          (''model-index'', JDict [(''name'', JStr ''m''), (''results'', JList [] :: real json)])])"
    by (simp add: card_defs index_defs)
  note t = rewritten_document [OF h1, of "\<lambda>j. ''tags: [spacy]'' @ [CHR 0x0A]" None
      "''---'' @ [CHR 0x0A] @ ''tags: [spacy]'' @ [CHR 0x0A] @ ''---'' @ [CHR 0x0A]"]
  from t show ?thesis
    by simp
qed

section \<open>The two scenarios of the specification\<close>

lemma scenario_ner:
  "create_model_card_metadata ''m''
     (JDict [(''lang'', JStr ''en''), (''license'', JStr ''MIT License''),
             (''components'', JList [JStr ''ner'']),
             (''performance'', JDict [(''ents_p'', JNum (9/10)), (''ents_r'', JNum (8/10)),
                                      (''ents_f'', JNum (85/100 :: real))])])
     = Inr (JDict
         [(''tags'', JList [JStr ''spacy'', JStr ''token-classification'']),
          (''language'', JList [JStr ''en'']),
          (''license'', JStr ''MIT-License''),
          (''model-index'', JDict [(''name'', JStr ''m''), (''results'', JList
             [task_entry ''NER'' (JList
                [create_metric ''Precision'' ''precision'' (JNum (9/10)),
                 create_metric ''Recall'' ''recall'' (JNum (8/10)),
                 create_metric ''F Score'' ''f_score'' (JNum (85/100))])])])])"
  by (simp add: card_defs index_defs create_p_r_f_list_def)

lemma scenario_pos:
  "create_model_card_metadata ''m''
     (JDict [(''lang'', JStr ''xx''), (''components'', JList []),
             (''performance'', JDict [(''tag_acc'', JNum (95/100 :: real))])])
     = Inr (JDict
         [(''tags'', JList [JStr ''spacy'']),
          (''language'', JList [JStr ''multilingual'']),
          (''model-index'', JDict [(''name'', JStr ''m''), (''results'', JList
             [task_entry ''POS'' (JList [create_metric ''Accuracy'' ''accuracy'' (JNum (95/100))])])])])"
  by (simp add: card_defs index_defs)

end
